theory Spec2Isabelle
  imports Complex_Main "HOL-Library.AList" "HOL-Library.Char_ord" "HOL-Library.List_Lexorder"
begin

section \<open>Point-of-sale backend: payments, orders, product prices\<close>

text \<open>
  Monetary amounts are Python floats in the source; they are modelled as real numbers,
  so that sums and comparisons are the exact ones. Datetimes are modelled as integers
  (seconds on a time line); Python's \<open>str\<close> of a datetime is a parameter \<open>str_dt\<close>.
  An exception raised inside a model method aborts the transaction, so an error result
  carries no updated records.
\<close>

datatype odoo_error = ValidationError string | UserError string

subsection \<open>pos\_payment.py\<close>

datatype payment_status = Pending | Done | Failed | Reversed

text \<open>The \<open>note\<close> text field reads as a falsy value when it is empty: the empty string here.\<close>

record pos_payment =
  name :: string
  amount :: real
  payment_date :: int
  payment_status :: payment_status
  "note" :: string
  is_change :: bool

text \<open>The constraint \<open>_check_amount\<close>, declared on the field \<open>amount\<close>, for one record.\<close>

definition check_amount :: "pos_payment \<Rightarrow> odoo_error + unit" where
  "check_amount payment =
     (if amount payment \<le> 0 \<and> \<not> is_change payment
        then Inl (ValidationError ''Payment amount must be positive.'')
      else if amount payment \<ge> 0 \<and> is_change payment
        then Inl (ValidationError ''Change amount must be negative.'')
      else Inr ())"

text \<open>
  \<open>payment.copy(default)\<close> creates a new record from the fields of \<open>payment\<close>
  overridden by the values in \<open>default\<close>; the creation writes \<open>amount\<close>, so the constraint declared
  on \<open>amount\<close> is checked on the new record, and its error aborts the creation.
\<close>

definition copy_payment :: "pos_payment \<Rightarrow> (pos_payment \<Rightarrow> pos_payment) \<Rightarrow> odoo_error + pos_payment" where
  "copy_payment payment dflt =
     (let new = dflt payment in
      case check_amount new of Inl e \<Rightarrow> Inl e | Inr _ \<Rightarrow> Inr new)"

text \<open>
  The body of the loop of \<open>reverse_payment\<close> for one payment: the result holds the
  written original and the new reversal.
\<close>

definition reverse_one ::
  "(int \<Rightarrow> string) \<Rightarrow> int \<Rightarrow> pos_payment \<Rightarrow> odoo_error + (pos_payment \<times> pos_payment)" where
  "reverse_one str_dt now payment =
     (if payment_status payment \<noteq> Done
        then Inl (ValidationError ''Only confirmed payments can be reversed.'')
      else
        let written = payment\<lparr>
              payment_status := Reversed,
              note := (if note payment \<noteq> ''''
                       then note payment @ [CHR 0x0A] @ ''Payment reversed on '' @ str_dt now
                       else ''Payment reversed on '' @ str_dt now)\<rparr>
        in case copy_payment written (\<lambda>p. p\<lparr>
              name := ''Reversal of '' @ name written,
              amount := - amount written,
              note := ''Reversal of payment '' @ name written,
              payment_status := Done,
              payment_date := now\<rparr>) of
             Inl e \<Rightarrow> Inl e
           | Inr reversed_payment \<Rightarrow> Inr (written, reversed_payment))"

text \<open>
  \<open>reverse_payment\<close> on a recordset: the loop returns in its first iteration, and an
  empty recordset falls through to \<open>None\<close>.
\<close>

fun reverse_payment ::
  "(int \<Rightarrow> string) \<Rightarrow> int \<Rightarrow> pos_payment list \<Rightarrow> odoo_error + (pos_payment \<times> pos_payment) option" where
  "reverse_payment str_dt now [] = Inr None"
| "reverse_payment str_dt now (payment # rest) =
     (case reverse_one str_dt now payment of Inl e \<Rightarrow> Inl e | Inr r \<Rightarrow> Inr (Some r))"

subsection \<open>pos\_order.py\<close>

datatype order_state = Draft | Paid | OrderDone | Invoiced | Cancel

datatype invoice_state = NotInvoiced | IsInvoiced

text \<open>
  The subtotals of a line are computed by the tax engine of the framework; the model
  keeps them as the stored values the order reads. The computed amounts of an order are
  the exact sums: the rounding of a computed field to the decimal precision of its
  \<open>digits\<close> is not modelled.
\<close>

record pos_order_line =
  price_subtotal :: real
  price_subtotal_incl :: real

record pos_order =
  lines :: "pos_order_line list"
  payment_ids :: "pos_payment list"
  state :: order_state
  receipt_number :: string
  external_id :: string
  account_move_id :: "nat option"
  invoice_state :: invoice_state

definition amount_tax :: "pos_order \<Rightarrow> real" where
  "amount_tax order = sum_list (map (\<lambda>line. price_subtotal_incl line - price_subtotal line) (lines order))"

definition amount_total :: "pos_order \<Rightarrow> real" where
  "amount_total order = sum_list (map price_subtotal_incl (lines order))"

definition amount_paid :: "pos_order \<Rightarrow> real" where
  "amount_paid order =
     (let payments = filter (\<lambda>p. payment_status p = Done) (payment_ids order)
      in sum_list (map amount (filter (\<lambda>payment. \<not> is_change payment) payments)))"

definition amount_return :: "pos_order \<Rightarrow> real" where
  "amount_return order =
     (let payments = filter (\<lambda>p. payment_status p = Done) (payment_ids order)
      in - sum_list (map amount (filter (\<lambda>payment. is_change payment) payments)))"

text \<open>
  \<open>action_paid\<close> over a recordset; the result is the recordset after the writes and the
  returned \<open>True\<close>.
\<close>

fun action_paid_loop :: "pos_order list \<Rightarrow> odoo_error + pos_order list" where
  "action_paid_loop [] = Inr []"
| "action_paid_loop (order # rest) =
     (if state order \<noteq> Draft then
        (case action_paid_loop rest of Inl e \<Rightarrow> Inl e | Inr rest' \<Rightarrow> Inr (order # rest'))
      else if amount_total order > amount_paid order then
        Inl (UserError ''Cannot mark as paid: Order is not fully paid.'')
      else
        (case action_paid_loop rest of Inl e \<Rightarrow> Inl e
         | Inr rest' \<Rightarrow> Inr (order\<lparr>state := Paid\<rparr> # rest')))"

definition action_paid :: "pos_order list \<Rightarrow> odoo_error + (pos_order list \<times> bool)" where
  "action_paid self =
     (case action_paid_loop self of Inl e \<Rightarrow> Inl e | Inr self' \<Rightarrow> Inr (self', True))"

text \<open>
  The inner loop of \<open>action_cancel\<close>: every payment of the order that is \<open>done\<close> is
  reversed; the reversal is a new payment of the same order.
\<close>

fun reverse_done_payments ::
  "(int \<Rightarrow> string) \<Rightarrow> int \<Rightarrow> pos_payment list \<Rightarrow> odoo_error + pos_payment list" where
  "reverse_done_payments str_dt now [] = Inr []"
| "reverse_done_payments str_dt now (payment # rest) =
     (if payment_status payment = Done then
        (case reverse_one str_dt now payment of
           Inl e \<Rightarrow> Inl e
         | Inr (written, reversed_payment) \<Rightarrow>
             (case reverse_done_payments str_dt now rest of
                Inl e \<Rightarrow> Inl e
              | Inr rest' \<Rightarrow> Inr (written # reversed_payment # rest')))
      else
        (case reverse_done_payments str_dt now rest of
           Inl e \<Rightarrow> Inl e
         | Inr rest' \<Rightarrow> Inr (payment # rest')))"

fun action_cancel_loop ::
  "(int \<Rightarrow> string) \<Rightarrow> int \<Rightarrow> pos_order list \<Rightarrow> odoo_error + pos_order list" where
  "action_cancel_loop str_dt now [] = Inr []"
| "action_cancel_loop str_dt now (order # rest) =
     (if state order \<in> {OrderDone, Invoiced} then
        Inl (UserError ''Cannot cancel a completed order.'')
      else
        (case reverse_done_payments str_dt now (payment_ids order) of
           Inl e \<Rightarrow> Inl e
         | Inr payments' \<Rightarrow>
             (case action_cancel_loop str_dt now rest of
                Inl e \<Rightarrow> Inl e
              | Inr rest' \<Rightarrow> Inr (order\<lparr>payment_ids := payments', state := Cancel\<rparr> # rest'))))"

definition action_cancel ::
  "(int \<Rightarrow> string) \<Rightarrow> int \<Rightarrow> pos_order list \<Rightarrow> odoo_error + (pos_order list \<times> bool)" where
  "action_cancel str_dt now self =
     (case action_cancel_loop str_dt now self of Inl e \<Rightarrow> Inl e | Inr self' \<Rightarrow> Inr (self', True))"

text \<open>
  \<open>action_create_invoice\<close>: the two guards and the final write; the creation and posting
  of the accounting move belong to the framework and are the parameter \<open>create_move\<close>,
  which yields the identifier of the new move.
\<close>

fun action_create_invoice_loop ::
  "(pos_order \<Rightarrow> nat) \<Rightarrow> pos_order list \<Rightarrow> odoo_error + pos_order list" where
  "action_create_invoice_loop create_move [] = Inr []"
| "action_create_invoice_loop create_move (order # rest) =
     (if state order \<notin> {Paid, OrderDone} then
        Inl (UserError ''Cannot create invoice for unpaid order.'')
      else if invoice_state order = IsInvoiced then
        Inl (UserError ''This order is already invoiced.'')
      else
        (case action_create_invoice_loop create_move rest of
           Inl e \<Rightarrow> Inl e
         | Inr rest' \<Rightarrow>
             Inr (order\<lparr>account_move_id := Some (create_move order),
                        invoice_state := IsInvoiced,
                        state := Invoiced\<rparr> # rest')))"

definition action_create_invoice ::
  "(pos_order \<Rightarrow> nat) \<Rightarrow> pos_order list \<Rightarrow> odoo_error + (pos_order list \<times> bool)" where
  "action_create_invoice create_move self =
     (case action_create_invoice_loop create_move self of
        Inl e \<Rightarrow> Inl e | Inr self' \<Rightarrow> Inr (self', True))"

subsection \<open>product\_template.py\<close>

text \<open>
  A monetary field that is not set reads as \<open>0.0\<close>, a datetime field that is not set as
  \<open>False\<close> (\<open>None\<close> here); Python's truthiness of a float is \<open>x \<noteq> 0\<close>.
\<close>

record product_template =
  list_price :: real
  list_price_shop :: real
  discount_price :: real
  discount_start :: "int option"
  discount_end :: "int option"

definition get_current_price :: "int \<Rightarrow> product_template \<Rightarrow> real" where
  "get_current_price now self =
     (if discount_price self \<noteq> 0 \<and> discount_start self \<noteq> None \<and> discount_end self \<noteq> None
         \<and> the (discount_start self) \<le> now \<and> now \<le> the (discount_end self)
      then discount_price self
      else if list_price_shop self \<noteq> 0 then list_price_shop self else list_price self)"

text \<open>
  The price rule in the words of the specification: the discount price when one is set
  and \<open>now\<close> lies in the discount window, else the shop selling price when set, else the
  base list price.
\<close>

definition within_discount_window :: "int \<Rightarrow> product_template \<Rightarrow> bool" where
  "within_discount_window now p =
     (case (discount_start p, discount_end p) of
        (Some s, Some e) \<Rightarrow> s \<le> now \<and> now \<le> e
      | _ \<Rightarrow> False)"

definition current_price_spec :: "int \<Rightarrow> product_template \<Rightarrow> real" where
  "current_price_spec now p =
     (if discount_price p \<noteq> 0 \<and> within_discount_window now p then discount_price p
      else if list_price_shop p \<noteq> 0 then list_price_shop p
      else list_price p)"

section \<open>House price predictor: schemas and feature engineering\<close>

text \<open>
  Python floats are modelled as real numbers, Python integers as \<open>int\<close>. A dictionary is
  an association list in insertion order (its keys are distinct). Exceptions are values
  of \<open>py_error\<close>; \<open>PredictionFailed e\<close> is the \<open>MLModelException\<close> whose message is
  "Prediction failed: " followed by the text of the exception \<open>e\<close> it wraps, and
  \<open>ValidationError422\<close> is the request validation error of the web framework.
\<close>

datatype detail = Text string | BatchSizeExceedsMaximum int

datatype py_error =
    MLModelException string
  | ValueError
  | KeyError
  | TypeError
  | AttributeError
  | ZeroDivisionError
  | NotFittedError
  | ValidationError422
  | RateLimitException "nat option"
  | HTTPException nat detail
  | PredictionFailed py_error

subsection \<open>schemas.py\<close>

datatype property_type = APARTMENT | HOUSE | CONDO | TOWNHOUSE | VILLA | COMMERCIAL | LAND

datatype property_condition = NEW | EXCELLENT | GOOD | FAIR | POOR | RENOVATION_NEEDED

datatype location_tier = TIER_1 | TIER_2 | TIER_3 | TIER_4

datatype noise_level = LOW | MEDIUM | HIGH

type_synonym risk_level = noise_level

fun property_type_value :: "property_type \<Rightarrow> string" where
  "property_type_value APARTMENT = ''apartment''"
| "property_type_value HOUSE = ''house''"
| "property_type_value CONDO = ''condo''"
| "property_type_value TOWNHOUSE = ''townhouse''"
| "property_type_value VILLA = ''villa''"
| "property_type_value COMMERCIAL = ''commercial''"
| "property_type_value LAND = ''land''"

fun property_condition_value :: "property_condition \<Rightarrow> string" where
  "property_condition_value NEW = ''new''"
| "property_condition_value EXCELLENT = ''excellent''"
| "property_condition_value GOOD = ''good''"
| "property_condition_value FAIR = ''fair''"
| "property_condition_value POOR = ''poor''"
| "property_condition_value RENOVATION_NEEDED = ''renovation_needed''"

fun location_tier_value :: "location_tier \<Rightarrow> string" where
  "location_tier_value TIER_1 = ''tier_1''"
| "location_tier_value TIER_2 = ''tier_2''"
| "location_tier_value TIER_3 = ''tier_3''"
| "location_tier_value TIER_4 = ''tier_4''"

fun level_value :: "noise_level \<Rightarrow> string" where
  "level_value LOW = ''low''"
| "level_value MEDIUM = ''medium''"
| "level_value HIGH = ''high''"

record property_location =
  city :: string
  township :: string
  ward :: "string option"
  street :: "string option"
  latitude :: "real option"
  longitude :: "real option"
  location_tier :: "location_tier option"

record property_features =
  bedrooms :: int
  bathrooms :: int
  floors :: int
  parking_spaces :: int
  balconies :: int
  has_elevator :: bool
  has_swimming_pool :: bool
  has_gym :: bool
  has_security :: bool
  has_generator :: bool
  has_water_tank :: bool
  has_garden :: bool
  has_garage :: bool
  has_internet :: bool
  has_cable_tv :: bool
  has_air_conditioning :: bool

record neighborhood_features =
  nearby_schools :: int
  nearby_hospitals :: int
  nearby_markets :: int
  nearby_restaurants :: int
  nearby_banks :: int
  nearby_shopping_malls :: int
  distance_to_city_center_km :: "real option"
  distance_to_nearest_school_km :: "real option"
  distance_to_nearest_hospital_km :: "real option"
  public_transport_access :: bool
  road_quality_score :: "real option"
  noise_level :: "noise_level option"
  flood_risk :: "risk_level option"
  crime_rate_score :: "real option"

record property_base =
  property_type :: property_type
  condition :: property_condition
  size_sqft :: real
  lot_size_sqft :: "real option"
  year_built :: "int option"
  location :: property_location
  features :: property_features
  neighborhood :: "neighborhood_features option"
  description :: "string option"

record prediction_request = property_base +
  enable_ai_enrichment :: bool
  model_preference :: "string option"

record batch_prediction_request =
  properties :: "prediction_request list"
  batch_enable_ai_enrichment :: bool
  batch_model_preference :: "string option"

record model_performance_metrics =
  model_name :: string
  mae :: real
  rmse :: real
  r2_score :: real
  mape :: real
  training_samples :: int
  feature_count :: int

record prediction_response =
  predicted_price_mmk :: real
  predicted_price_usd :: real
  confidence_score :: real
  price_range_mmk :: "real \<times> real"
  price_range_usd :: "real \<times> real"
  model_used :: string
  feature_importance :: "(string \<times> real) list"
  prediction_id :: string

subsection \<open>Python values used by the feature code\<close>

text \<open>\<open>x or d\<close> on an optional float: \<open>None\<close> and \<open>0.0\<close> are falsy.\<close>

definition or_float :: "real option \<Rightarrow> real \<Rightarrow> real" where
  "or_float x d = (case x of None \<Rightarrow> d | Some v \<Rightarrow> if v \<noteq> 0 then v else d)"

definition or_int :: "int option \<Rightarrow> int \<Rightarrow> int" where
  "or_int x d = (case x of None \<Rightarrow> d | Some v \<Rightarrow> if v \<noteq> 0 then v else d)"

text \<open>Truthiness of an optional float, as in \<open>if latitude and longitude\<close>.\<close>

definition truthy_float :: "real option \<Rightarrow> bool" where
  "truthy_float x = (case x of None \<Rightarrow> False | Some v \<Rightarrow> v \<noteq> 0)"

text \<open>
  \<open>str.lower\<close> on the bytes of a string: the ASCII capitals become small letters; the
  letters of the Myanmar block, which the location validator also admits, have no case.
\<close>

definition lower_char :: "char \<Rightarrow> char" where
  "lower_char c =
     (let n = (of_char c :: nat) in if 65 \<le> n \<and> n \<le> 90 then char_of (n + 32) else c)"

definition lower :: "string \<Rightarrow> string" where
  "lower s = map lower_char s"

text \<open>A value of a feature dictionary: a number or a string.\<close>

datatype fval = Num real | Str string

type_synonym feature_dict = "(string \<times> fval) list"

text \<open>\<open>d.get(key, default)\<close> on a feature dictionary.\<close>

definition dict_get :: "(string \<times> 'v) list \<Rightarrow> string \<Rightarrow> 'v \<Rightarrow> 'v" where
  "dict_get d k dflt = (case map_of d k of None \<Rightarrow> dflt | Some v \<Rightarrow> v)"

subsection \<open>ml\_service.py: FeatureEngineer.create\_features\<close>

text \<open>The functions of Python's \<open>math\<close> module that \<open>_calculate_distance\<close> uses.\<close>

definition radians :: "real \<Rightarrow> real" where
  "radians x = x * pi / 180"

definition atan2 :: "real \<Rightarrow> real \<Rightarrow> real" where
  "atan2 y x =
     (if x > 0 then arctan (y / x)
      else if x < 0 \<and> y \<ge> 0 then arctan (y / x) + pi
      else if x < 0 \<and> y < 0 then arctan (y / x) - pi
      else if y > 0 then pi / 2
      else if y < 0 then - (pi / 2)
      else 0)"

definition calculate_distance :: "real \<Rightarrow> real \<Rightarrow> real \<Rightarrow> real \<Rightarrow> real" where
  "calculate_distance lat1 lon1 lat2 lon2 =
     (let R = 6371;
          la1 = radians lat1; lo1 = radians lon1; la2 = radians lat2; lo2 = radians lon2;
          dlat = la2 - la1;
          dlon = lo2 - lo1;
          a = (sin (dlat / 2))\<^sup>2 + cos la1 * cos la2 * (sin (dlon / 2))\<^sup>2;
          c = 2 * atan2 (sqrt a) (sqrt (1 - a))
      in R * c)"

definition risk_mapping :: "noise_level option \<Rightarrow> real" where
  "risk_mapping lvl =
     dict_get [(''low'', 1), (''medium'', 1/2), (''high'', 0)]
       (case lvl of Some l \<Rightarrow> level_value l | None \<Rightarrow> ''medium'') (1/2)"

definition amenities :: "property_features \<Rightarrow> bool list" where
  "amenities f =
     [has_elevator f, has_swimming_pool f, has_gym f, has_security f, has_generator f,
      has_water_tank f, has_garden f, has_garage f, has_internet f, has_cable_tv f,
      has_air_conditioning f]"

text \<open>Python's \<open>sum\<close> of a list of booleans.\<close>

definition sum_bools :: "bool list \<Rightarrow> real" where
  "sum_bools bs = real (length (filter (\<lambda>b. b) bs))"

text \<open>The features of the neighborhood branch, in the order of their insertion.\<close>

definition neighborhood_part :: "neighborhood_features option \<Rightarrow> feature_dict" where
  "neighborhood_part nb =
     (case nb of
        Some n \<Rightarrow>
          (let center = or_float (distance_to_city_center_km n) 50;
               school = or_float (distance_to_nearest_school_km n) 10;
               hospital = or_float (distance_to_nearest_hospital_km n) 20;
               education = min (real_of_int (nearby_schools n) / 5) 1 * (1 / max school (1/10));
               healthcare = min (real_of_int (nearby_hospitals n) / 3) 1 * (1 / max hospital (1/10));
               commercial = real_of_int (nearby_markets n + nearby_restaurants n + nearby_banks n) / 50;
               transport = (if public_transport_access n then 1 else 0);
               road = or_float (road_quality_score n) 5;
               noise = risk_mapping (noise_level n);
               flood = risk_mapping (flood_risk n);
               crime = (10 - or_float (crime_rate_score n) 5) / 10
           in [(''nearby_schools'', Num (real_of_int (nearby_schools n))),
               (''nearby_hospitals'', Num (real_of_int (nearby_hospitals n))),
               (''nearby_markets'', Num (real_of_int (nearby_markets n))),
               (''nearby_restaurants'', Num (real_of_int (nearby_restaurants n))),
               (''nearby_banks'', Num (real_of_int (nearby_banks n))),
               (''nearby_shopping_malls'', Num (real_of_int (nearby_shopping_malls n))),
               (''distance_to_city_center_km'', Num center),
               (''distance_to_nearest_school_km'', Num school),
               (''distance_to_nearest_hospital_km'', Num hospital),
               (''education_convenience'', Num education),
               (''healthcare_convenience'', Num healthcare),
               (''commercial_convenience'', Num commercial),
               (''public_transport_access'', Num transport),
               (''road_quality_score'', Num road),
               (''noise_quality_score'', Num noise),
               (''flood_safety_score'', Num flood),
               (''crime_safety_score'', Num crime),
               (''neighborhood_quality_score'',
                  Num (education * (25/100) + healthcare * (20/100) + commercial * (15/100)
                       + transport * (15/100) + (road / 10) * (10/100) + noise * (5/100)
                       + flood * (5/100) + crime * (5/100)))])
      | None \<Rightarrow>
          [(''nearby_schools'', Num 2), (''nearby_hospitals'', Num 1), (''nearby_markets'', Num 5),
           (''nearby_restaurants'', Num 10), (''nearby_banks'', Num 2),
           (''nearby_shopping_malls'', Num 1),
           (''distance_to_city_center_km'', Num 25), (''distance_to_nearest_school_km'', Num 5),
           (''distance_to_nearest_hospital_km'', Num 10), (''education_convenience'', Num (4/10)),
           (''healthcare_convenience'', Num (3/10)), (''commercial_convenience'', Num (3/10)),
           (''public_transport_access'', Num 0), (''road_quality_score'', Num 5),
           (''noise_quality_score'', Num (1/2)), (''flood_safety_score'', Num (1/2)),
           (''crime_safety_score'', Num (1/2)), (''neighborhood_quality_score'', Num (4/10))])"

text \<open>
  \<open>create_features\<close>; \<open>current_year\<close> is \<open>datetime.now().year\<close>. The only operation
  that can raise is the float division by \<open>size_sqft\<close> in \<open>lot_building_ratio\<close>.
\<close>

definition create_features :: "int \<Rightarrow> 'a property_base_scheme \<Rightarrow> py_error + feature_dict" where
  "create_features current_year property_data =
     (let f = features property_data;
          size = size_sqft property_data;
          lot = or_float (lot_size_sqft property_data) size;
          property_age = current_year - or_int (year_built property_data) current_year;
          beds = real_of_int (max (bedrooms f) 1);
          basic =
            [(''size_sqft'', Num size),
             (''lot_size_sqft'', Num lot),
             (''bedrooms'', Num (real_of_int (bedrooms f))),
             (''bathrooms'', Num (real_of_int (bathrooms f))),
             (''floors'', Num (real_of_int (floors f))),
             (''parking_spaces'', Num (real_of_int (parking_spaces f))),
             (''property_age'', Num (real_of_int property_age)),
             (''is_new_construction'', Num (if property_age \<le> 2 then 1 else 0)),
             (''is_vintage'', Num (if property_age \<ge> 30 then 1 else 0)),
             (''sqft_per_bedroom'', Num (size / beds)),
             (''bathroom_bedroom_ratio'', Num (real_of_int (bathrooms f) / beds)),
             (''lot_building_ratio'', Num (lot / size)),
             (''parking_per_bedroom'', Num (real_of_int (parking_spaces f) / beds)),
             (''amenity_score'', Num (sum_bools (amenities f) / real (length (amenities f)))),
             (''luxury_amenity_score'',
                Num (sum_bools [has_elevator f, has_swimming_pool f, has_gym f] / 3))];
          with_neighborhood = basic @ neighborhood_part (neighborhood property_data);
          loc = location property_data;
          categorical =
            [(''property_type'', Str (property_type_value (property_type property_data))),
             (''condition'', Str (property_condition_value (condition property_data))),
             (''city'', Str (lower (city loc))),
             (''township'', Str (lower (township loc))),
             (''location_tier'',
                Str (case location_tier loc of Some t \<Rightarrow> location_tier_value t | None \<Rightarrow> ''tier_3''))];
          before_cbd = with_neighborhood @ categorical;
          distance_from_cbd =
            (if truthy_float (latitude loc) \<and> truthy_float (longitude loc)
             then Num (calculate_distance (the (latitude loc)) (the (longitude loc))
                         (167967/10000) (96161/1000))
             else dict_get before_cbd ''distance_to_city_center_km'' (Num 50))
      in if size = 0 then Inl ZeroDivisionError
         else Inr (before_cbd @ [(''distance_from_cbd'', distance_from_cbd)]))"

text \<open>
  The distance-to-city-center feature in the words of the specification: the
  neighborhood's distance to the city center, defaulted to 50.0 when it is absent (or
  zero), and 25.0 when there is no neighborhood data.
\<close>

definition center_distance_feature :: "neighborhood_features option \<Rightarrow> real" where
  "center_distance_feature nb =
     (case nb of None \<Rightarrow> 25
      | Some n \<Rightarrow> (case distance_to_city_center_km n of None \<Rightarrow> 50
                    | Some d \<Rightarrow> if d = 0 then 50 else d))"

subsection \<open>ml\_service.py: FeatureEngineer.fit\_transform and transform\<close>

text \<open>
  The library objects the class holds, modelled from their documented behaviour.
  A fitted \<open>LabelEncoder\<close> is its sorted list of classes; a fitted \<open>StandardScaler\<close>
  is the column names, means and scales it has seen. A data frame is its list of column
  names together with its rows; a row is a dictionary, and a cell that a row does not
  hold is the missing value \<open>NaN\<close>. Python's \<open>str\<close> of a float is the parameter
  \<open>repr\<close>.
\<close>

record standard_scaler =
  feature_names_in :: "string list"
  scaler_mean :: "real list"
  scaler_scale :: "real list"

record feature_engineer =
  label_encoders :: "(string \<times> string list) list"
  scaler :: "standard_scaler option"
  feature_names :: "string list"
  is_fitted :: bool

definition FeatureEngineer_init :: feature_engineer where
  "FeatureEngineer_init = \<lparr>label_encoders = [], scaler = None, feature_names = [], is_fitted = False\<rparr>"

definition categorical_cols :: "string list" where
  "categorical_cols = [''property_type'', ''condition'', ''city'', ''township'', ''location_tier'']"

record data_frame =
  columns :: "string list"
  rows :: "feature_dict list"

text \<open>\<open>pd.DataFrame(list of dicts)\<close>: the columns are the keys in the order of their first appearance.\<close>

definition first_seen :: "string list \<Rightarrow> string list" where
  "first_seen ks = fold (\<lambda>k acc. if k \<in> set acc then acc else acc @ [k]) ks []"

definition DataFrame :: "feature_dict list \<Rightarrow> data_frame" where
  "DataFrame dicts = \<lparr>columns = first_seen (concat (map (map fst) dicts)), rows = dicts\<rparr>"

text \<open>\<open>astype(str)\<close> on a cell.\<close>

definition astype_str :: "(real \<Rightarrow> string) \<Rightarrow> fval option \<Rightarrow> string" where
  "astype_str repr cell =
     (case cell of None \<Rightarrow> ''nan'' | Some (Str s) \<Rightarrow> s | Some (Num x) \<Rightarrow> repr x)"

fun index_of :: "'a list \<Rightarrow> 'a \<Rightarrow> nat" where
  "index_of [] x = 0"
| "index_of (y # ys) x = (if x = y then 0 else Suc (index_of ys x))"

text \<open>\<open>LabelEncoder.fit\<close>: the sorted distinct labels; \<open>transform\<close> raises on an unseen label.\<close>

definition le_fit :: "string list \<Rightarrow> string list" where
  "le_fit labels = sort (remdups labels)"

definition le_transform :: "string list \<Rightarrow> string \<Rightarrow> py_error + nat" where
  "le_transform classes label =
     (if label \<in> set classes then Inr (index_of classes label) else Inl ValueError)"

text \<open>One iteration of the encoding loop of \<open>fit_transform\<close>.\<close>

definition fit_encode ::
  "(real \<Rightarrow> string) \<Rightarrow> string \<Rightarrow> data_frame \<times> (string \<times> string list) list
     \<Rightarrow> data_frame \<times> (string \<times> string list) list" where
  "fit_encode repr col st =
     (case st of (df, encoders) \<Rightarrow>
        if col \<in> set (columns df) then
          (let classes = le_fit (map (\<lambda>row. astype_str repr (map_of row col)) (rows df));
               encoded = map (\<lambda>row. AList.update col
                                 (Num (real (index_of classes (astype_str repr (map_of row col))))) row)
                             (rows df)
           in (df\<lparr>rows := encoded\<rparr>, AList.update col classes encoders))
        else (df, encoders))"

text \<open>
  \<open>StandardScaler.fit_transform\<close> on a frame: it raises on an empty frame and on a
  cell that is not a number; missing values are left out of the statistics and stay
  missing; a column of variance zero gets the scale one.
\<close>

definition column_numbers :: "data_frame \<Rightarrow> string \<Rightarrow> real list" where
  "column_numbers df col =
     concat (map (\<lambda>row. case map_of row col of Some (Num x) \<Rightarrow> [x] | _ \<Rightarrow> []) (rows df))"

definition has_string_cell :: "data_frame \<Rightarrow> bool" where
  "has_string_cell df =
     (\<exists>row \<in> set (rows df). \<exists>col \<in> set (columns df).
        case map_of row col of Some (Str s) \<Rightarrow> True | _ \<Rightarrow> False)"

definition column_mean :: "real list \<Rightarrow> real" where
  "column_mean xs = sum_list xs / real (length xs)"

definition column_scale :: "real list \<Rightarrow> real" where
  "column_scale xs =
     (let m = column_mean xs;
          var = sum_list (map (\<lambda>x. (x - m)\<^sup>2) xs) / real (length xs)
      in if var = 0 then 1 else sqrt var)"

definition scale_cell :: "real \<Rightarrow> real \<Rightarrow> fval option \<Rightarrow> real option" where
  "scale_cell m s cell = (case cell of Some (Num x) \<Rightarrow> Some ((x - m) / s) | _ \<Rightarrow> None)"

definition scaler_fit_transform ::
  "data_frame \<Rightarrow> py_error + (standard_scaler \<times> real option list list)" where
  "scaler_fit_transform df =
     (if rows df = [] \<or> columns df = [] \<or> has_string_cell df then Inl ValueError
      else
        (let means = map (\<lambda>col. column_mean (column_numbers df col)) (columns df);
             scales = map (\<lambda>col. column_scale (column_numbers df col)) (columns df)
         in Inr (\<lparr>feature_names_in = columns df, scaler_mean = means, scaler_scale = scales\<rparr>,
                 map (\<lambda>row. map (\<lambda>(col, m, s). scale_cell m s (map_of row col))
                                (zip (columns df) (zip means scales)))
                     (rows df))))"

text \<open>
  \<open>fit_transform\<close>: the result is the object as the call leaves it, together with the
  scaled matrix or the exception. The encoders and the feature names are assigned before
  the scaler runs; \<open>is_fitted\<close> is assigned after it.
\<close>

definition fit_transform ::
  "(real \<Rightarrow> string) \<Rightarrow> feature_engineer \<Rightarrow> feature_dict list
     \<Rightarrow> feature_engineer \<times> (py_error + real option list list)" where
  "fit_transform repr self features_list =
     (case fold (fit_encode repr) categorical_cols (DataFrame features_list, label_encoders self) of
        (df, encoders) \<Rightarrow>
          (let self1 = self\<lparr>label_encoders := encoders, feature_names := columns df\<rparr>
           in case scaler_fit_transform df of
                Inl e \<Rightarrow> (self1\<lparr>scaler := None\<rparr>, Inl e)
              | Inr (sc, scaled_features) \<Rightarrow>
                  (self1\<lparr>scaler := Some sc, is_fitted := True\<rparr>, Inr scaled_features)))"

text \<open>
  One iteration of the encoding loop of \<open>transform\<close>, on the single row of the frame: a
  label the encoder has not seen raises \<open>ValueError\<close>, which the loop replaces by 0.
\<close>

definition encode_column ::
  "(real \<Rightarrow> string) \<Rightarrow> (string \<times> string list) list \<Rightarrow> string \<Rightarrow> feature_dict \<Rightarrow> feature_dict" where
  "encode_column repr encoders col df =
     (case (map_of df col, map_of encoders col) of
        (Some v, Some classes) \<Rightarrow>
          (case le_transform classes (astype_str repr (Some v)) of
             Inr i \<Rightarrow> AList.update col (Num (real i)) df
           | Inl e \<Rightarrow> AList.update col (Num 0) df)
      | _ \<Rightarrow> df)"

text \<open>One iteration of the loop that adds the missing features.\<close>

definition fill_missing :: "string \<Rightarrow> feature_dict \<Rightarrow> feature_dict" where
  "fill_missing feature_name df =
     (if map_of df feature_name = None then df @ [(feature_name, Num 0)] else df)"

text \<open>\<open>df[names]\<close>: the cells of the row in the order of \<open>names\<close>; a missing column raises.\<close>

fun select_columns :: "string list \<Rightarrow> feature_dict \<Rightarrow> py_error + fval list" where
  "select_columns [] df = Inr []"
| "select_columns (n # ns) df =
     (case map_of df n of
        None \<Rightarrow> Inl KeyError
      | Some v \<Rightarrow> (case select_columns ns df of Inl e \<Rightarrow> Inl e | Inr vs \<Rightarrow> Inr (v # vs)))"

text \<open>
  \<open>StandardScaler.transform\<close> on the row: it raises when the scaler is not fitted, when
  the columns are not the ones seen in the fit, and on a cell that is not a number.
\<close>

fun as_floats :: "fval list \<Rightarrow> py_error + real list" where
  "as_floats [] = Inr []"
| "as_floats (Str s # vs) = Inl ValueError"
| "as_floats (Num x # vs) =
     (case as_floats vs of Inl e \<Rightarrow> Inl e | Inr xs \<Rightarrow> Inr (x # xs))"

definition scaler_transform ::
  "standard_scaler option \<Rightarrow> string list \<Rightarrow> fval list \<Rightarrow> py_error + real list" where
  "scaler_transform sc names cells =
     (case sc of
        None \<Rightarrow> Inl NotFittedError
      | Some s \<Rightarrow>
          if names \<noteq> feature_names_in s then Inl ValueError
          else (case as_floats cells of
                  Inl e \<Rightarrow> Inl e
                | Inr xs \<Rightarrow> Inr (map (\<lambda>(x, m, d). (x - m) / d) (zip xs (zip (scaler_mean s) (scaler_scale s))))))"

definition transform ::
  "(real \<Rightarrow> string) \<Rightarrow> feature_engineer \<Rightarrow> feature_dict \<Rightarrow> py_error + real list" where
  "transform repr self feats =
     (if \<not> is_fitted self then Inl (MLModelException ''FeatureEngineer not fitted yet'')
      else
        (let df = fold (encode_column repr (label_encoders self)) categorical_cols feats;
             df = fold fill_missing (feature_names self) df
         in case select_columns (feature_names self) df of
              Inl e \<Rightarrow> Inl e
            | Inr cells \<Rightarrow> scaler_transform (scaler self) (feature_names self) cells))"

text \<open>
  The transformed vector in the words of the specification: one entry per canonical
  feature name, in that order; a categorical value is replaced by its index in the
  stored encoder (0 when it was not seen in the fit), a missing feature is 0, and the
  stored scaling is applied.
\<close>

definition encoded_value ::
  "(real \<Rightarrow> string) \<Rightarrow> feature_engineer \<Rightarrow> feature_dict \<Rightarrow> string \<Rightarrow> real" where
  "encoded_value repr fe feats n =
     (case map_of feats n of
        None \<Rightarrow> 0
      | Some v \<Rightarrow>
          (case (if n \<in> set categorical_cols then map_of (label_encoders fe) n else None) of
             Some classes \<Rightarrow>
               (if astype_str repr (Some v) \<in> set classes
                then real (index_of classes (astype_str repr (Some v))) else 0)
           | None \<Rightarrow> (case v of Num x \<Rightarrow> x | Str s \<Rightarrow> 0)))"

definition expected_vector ::
  "(real \<Rightarrow> string) \<Rightarrow> feature_engineer \<Rightarrow> feature_dict \<Rightarrow> real list" where
  "expected_vector repr fe feats =
     (case scaler fe of
        None \<Rightarrow> []
      | Some s \<Rightarrow>
          map (\<lambda>(n, m, d). (encoded_value repr fe feats n - m) / d)
              (zip (feature_names fe) (zip (scaler_mean s) (scaler_scale s))))"

text \<open>
  A feature map whose values for the canonical features outside the five categorical
  columns are numbers, as \<open>create_features\<close> produces them.
\<close>

definition numeric_features :: "feature_engineer \<Rightarrow> feature_dict \<Rightarrow> bool" where
  "numeric_features fe feats =
     list_all (\<lambda>n. n \<in> set categorical_cols
                   \<or> (case map_of feats n of Some (Str s) \<Rightarrow> False | _ \<Rightarrow> True))
              (feature_names fe)"

text \<open>
  What a returned \<open>fit_transform\<close> leaves behind: a fitted scaler for the canonical
  feature names, and an encoder for every categorical column among them.
\<close>

definition fitted_inv :: "feature_engineer \<Rightarrow> bool" where
  "fitted_inv fe =
     (is_fitted fe
      \<and> (case scaler fe of
            None \<Rightarrow> False
          | Some sc \<Rightarrow> feature_names_in sc = feature_names fe
                       \<and> length (scaler_mean sc) = length (feature_names fe)
                       \<and> length (scaler_scale sc) = length (feature_names fe))
      \<and> list_all (\<lambda>c. c \<in> set (feature_names fe) \<longrightarrow> map_of (label_encoders fe) c \<noteq> None)
           categorical_cols)"

subsection \<open>ml\_service.py: MLModelManager.predict\<close>

text \<open>
  A trained regression model is the function its \<open>predict\<close> computes on one feature
  vector. The two dictionaries of the manager are association lists.
\<close>

record ml_model_manager =
  models :: "(string \<times> (real list \<Rightarrow> real)) list"
  feature_engineer :: feature_engineer
  model_metrics :: "(string \<times> model_performance_metrics) list"
  exchange_rate_usd_mmk :: real

text \<open>\<open>str.replace(old, new)\<close>: every non-overlapping occurrence, from the left.\<close>

fun replace_from :: "string \<Rightarrow> string \<Rightarrow> nat \<Rightarrow> string \<Rightarrow> string" where
  "replace_from old new k [] = []"
| "replace_from old new (Suc k) (c # cs) = replace_from old new k cs"
| "replace_from old new 0 (c # cs) =
     (if take (length old) (c # cs) = old
      then new @ replace_from old new (length old - 1) cs
      else c # replace_from old new 0 cs)"

definition py_replace :: "string \<Rightarrow> string \<Rightarrow> string \<Rightarrow> string" where
  "py_replace old new s =
     (if old = [] then new @ concat (map (\<lambda>c. c # new) s) else replace_from old new 0 s)"

definition feature_importance_table :: "(string \<times> real) list" where
  "feature_importance_table =
     [(''size_sqft'', 25/100), (''location'', 20/100), (''condition'', 15/100),
      (''bedrooms'', 12/100), (''amenities'', 10/100), (''age'', 8/100), (''other'', 10/100)]"

text \<open>
  The body of the \<open>try\<close> block of \<open>predict\<close> after the features are transformed to
  \<open>X\<close>: the choice of the model, the ensemble, and the response. \<open>new_uuid\<close> is the
  generated prediction identifier.
\<close>

definition predict_from ::
  "string \<Rightarrow> ml_model_manager \<Rightarrow> real list \<Rightarrow> string option \<Rightarrow> prediction_response" where
  "predict_from new_uuid self X preference =
     (let preferred =
            (case preference of
               None \<Rightarrow> None
             | Some p \<Rightarrow> if p \<noteq> '''' then map_option (\<lambda>model. (p, model)) (map_of (models self) p)
                         else None);
          chosen =
            (case preferred of
               Some (nm, model) \<Rightarrow> ([(nm, model X)], nm)
             | None \<Rightarrow>
               (let predictions = map (\<lambda>(nm, model). (nm, model X)) (models self);
                    weights = map (\<lambda>(nm, pred).
                                (nm, case map_of (model_metrics self) nm of
                                         Some m \<Rightarrow> max (1/10) (r2_score m)
                                       | None \<Rightarrow> 1/2)) predictions;
                    total_weight = sum_list (map snd weights);
                    ensemble_prediction =
                      sum_list (map (\<lambda>(nm, pred). pred * dict_get weights nm 0 / total_weight)
                                    predictions)
                in (AList.update ''ensemble'' ensemble_prediction predictions, ''ensemble'')));
          predictions = fst chosen;
          name_used = snd chosen;
          price_mmk = dict_get predictions name_used 0;
          price_usd = price_mmk / exchange_rate_usd_mmk self;
          confidence =
            min (95/100) (max (1/2)
              (case map_of (model_metrics self) (py_replace ''ensemble'' ''xgboost'' name_used) of
                 Some m \<Rightarrow> r2_score m
               | None \<Rightarrow> (case map_of (model_metrics self) ''xgboost'' of
                            Some m \<Rightarrow> r2_score m
                          | None \<Rightarrow> 7/10)))
      in \<lparr>predicted_price_mmk = price_mmk,
          predicted_price_usd = price_usd,
          confidence_score = confidence,
          price_range_mmk = (price_mmk * (8/10), price_mmk * (12/10)),
          price_range_usd = (price_usd * (8/10), price_usd * (12/10)),
          model_used = name_used,
          feature_importance = feature_importance_table,
          prediction_id = new_uuid\<rparr>)"

text \<open>
  \<open>predict\<close>: every exception of the body is raised again as the ML-model error
  "Prediction failed", which wraps it.
\<close>

definition predict ::
  "(real \<Rightarrow> string) \<Rightarrow> int \<Rightarrow> string \<Rightarrow> ml_model_manager \<Rightarrow> 'a property_base_scheme
     \<Rightarrow> string option \<Rightarrow> py_error + prediction_response" where
  "predict repr current_year new_uuid self property_data preference =
     (case create_features current_year property_data of
        Inl e \<Rightarrow> Inl (PredictionFailed e)
      | Inr feats \<Rightarrow>
          (case transform repr (feature_engineer self) feats of
             Inl e \<Rightarrow> Inl (PredictionFailed e)
           | Inr X \<Rightarrow> Inr (predict_from new_uuid self X preference)))"

text \<open>
  The ensemble in the words of the specification: each model's weight is its stored
  R-squared score floored at 0.1, or 0.5 when no metric is recorded, and the prediction
  is the weighted sum of the model predictions divided by the sum of the weights.
\<close>

definition ensemble_weight :: "(string \<times> model_performance_metrics) list \<Rightarrow> string \<Rightarrow> real" where
  "ensemble_weight metrics nm =
     (case map_of metrics nm of Some m \<Rightarrow> max (1/10) (r2_score m) | None \<Rightarrow> 1/2)"

definition weighted_ensemble ::
  "(string \<times> (real list \<Rightarrow> real)) list \<Rightarrow> (string \<times> model_performance_metrics) list
     \<Rightarrow> real list \<Rightarrow> real" where
  "weighted_ensemble ms metrics X =
     sum_list (map (\<lambda>(nm, model). model X * ensemble_weight metrics nm) ms)
       / sum_list (map (\<lambda>(nm, model). ensemble_weight metrics nm) ms)"

section \<open>House price predictor: API routes\<close>

subsection \<open>config.py and exceptions.py\<close>

record settings =
  MAX_PREDICTION_BATCH_SIZE :: int
  RATE_LIMIT_PER_MINUTE :: int
  ENABLE_AI_ENRICHMENT :: bool

definition default_settings :: settings where
  "default_settings =
     \<lparr>MAX_PREDICTION_BATCH_SIZE = 100, RATE_LIMIT_PER_MINUTE = 60, ENABLE_AI_ENRICHMENT = True\<rparr>"

text \<open>
  The constructor of \<open>RateLimitException\<close>: the details hold \<open>retry_after\<close> only when
  the argument is truthy.
\<close>

definition rate_limit_exception :: "nat option \<Rightarrow> py_error" where
  "rate_limit_exception retry_after =
     RateLimitException (case retry_after of None \<Rightarrow> None
                         | Some n \<Rightarrow> if n \<noteq> 0 then Some n else None)"

subsection \<open>routes.py: check\_rate\_limit\<close>

text \<open>
  The module-level dictionary \<open>rate_limit_storage\<close> maps a client address to the list
  of its recorded timestamps (seconds, as reals). The check returns the storage as it
  leaves it, also when it raises.
\<close>

type_synonym rate_limit_storage = "string \<Rightarrow> real list option"

definition check_rate_limit ::
  "settings \<Rightarrow> string \<Rightarrow> real \<Rightarrow> rate_limit_storage \<Rightarrow> rate_limit_storage \<times> (py_error + unit)" where
  "check_rate_limit cfg client_ip current_time storage =
     (let cutoff_time = current_time - 60;
          cleaned = (case storage client_ip of
                       Some stamps \<Rightarrow>
                         storage(client_ip \<mapsto> filter (\<lambda>timestamp. timestamp > cutoff_time) stamps)
                     | None \<Rightarrow> storage);
          present = (case cleaned client_ip of
                       None \<Rightarrow> cleaned(client_ip \<mapsto> [])
                     | Some _ \<Rightarrow> cleaned);
          stamps = (case present client_ip of Some l \<Rightarrow> l | None \<Rightarrow> [])
      in if int (length stamps) \<ge> RATE_LIMIT_PER_MINUTE cfg
         then (present, Inl (rate_limit_exception (Some 60)))
         else (present(client_ip \<mapsto> stamps @ [current_time]), Inr ()))"

text \<open>A client's requests at the given times, one check after the other.\<close>

fun run_requests ::
  "settings \<Rightarrow> string \<Rightarrow> real list \<Rightarrow> rate_limit_storage
     \<Rightarrow> rate_limit_storage \<times> (py_error + unit) list" where
  "run_requests cfg client_ip [] storage = (storage, [])"
| "run_requests cfg client_ip (t # ts) storage =
     (case check_rate_limit cfg client_ip t storage of
        (storage', r) \<Rightarrow>
          (case run_requests cfg client_ip ts storage' of
             (storage'', rs) \<Rightarrow> (storage'', r # rs)))"

text \<open>The timestamps recorded for a client (none when the client has no entry).\<close>

definition recorded :: "rate_limit_storage \<Rightarrow> string \<Rightarrow> real list" where
  "recorded storage client_ip = (case storage client_ip of Some l \<Rightarrow> l | None \<Rightarrow> [])"

text \<open>
  The check in the words of the specification: the timestamps older than 60 seconds are
  discarded, the request is rejected (retry-after 60) if the remaining count is at least
  the limit, and recorded otherwise.
\<close>

definition older_than_60 :: "real \<Rightarrow> real \<Rightarrow> bool" where
  "older_than_60 current_time timestamp = (current_time - timestamp > 60)"

definition check_rate_limit_spec ::
  "settings \<Rightarrow> string \<Rightarrow> real \<Rightarrow> rate_limit_storage \<Rightarrow> rate_limit_storage \<times> (py_error + unit)" where
  "check_rate_limit_spec cfg client_ip current_time storage =
     (let remaining = filter (\<lambda>t. \<not> older_than_60 current_time t) (recorded storage client_ip)
      in if int (length remaining) \<ge> RATE_LIMIT_PER_MINUTE cfg
         then (storage(client_ip \<mapsto> remaining), Inl (RateLimitException (Some 60)))
         else (storage(client_ip \<mapsto> remaining @ [current_time]), Inr ()))"

subsection \<open>exceptions.py: the status code of the response to an exception\<close>

text \<open>
  The handlers registered by \<open>setup_exception_handlers\<close>: a request validation error
  gives 422, a custom exception its own status code (429 for the rate limit, 500 for the
  ML-model error), an \<open>HTTPException\<close> its status code, any other exception 500.
\<close>

fun status_code :: "py_error \<Rightarrow> nat" where
  "status_code ValidationError422 = 422"
| "status_code (RateLimitException r) = 429"
| "status_code (HTTPException code d) = code"
| "status_code e = 500"

subsection \<open>routes.py: batch\_predict\_prices\<close>

text \<open>
  The request body is validated against \<open>BatchPredictionRequest\<close> before the handler
  runs; the field \<open>properties\<close> is declared with \<open>max_items=100\<close>, so a longer list is a
  request validation error. (The items are values of \<open>prediction_request\<close>, that is,
  already validated.)
\<close>

definition validate_batch_request :: "batch_prediction_request \<Rightarrow> py_error + batch_prediction_request" where
  "validate_batch_request body =
     (if length (properties body) > 100 then Inl ValidationError422 else Inr body)"

record batch_prediction_response =
  predictions :: "prediction_response list"
  batch_id :: string
  total_processed :: nat

text \<open>The keys of \<open>property_data.dict()\<close>: the fields of \<open>PredictionRequest\<close>.\<close>

definition prediction_request_fields :: "string list" where
  "prediction_request_fields =
     [''property_type'', ''condition'', ''size_sqft'', ''lot_size_sqft'', ''year_built'',
      ''location'', ''features'', ''neighborhood'', ''description'',
      ''enable_ai_enrichment'', ''model_preference'']"

text \<open>
  A Python call \<open>f(**d, k1=v1, k2=v2)\<close>: a keyword that is given explicitly and is also
  a key of the unpacked dictionary raises \<open>TypeError\<close> (multiple values for a keyword
  argument).
\<close>

definition call_with_kwargs :: "string list \<Rightarrow> string list \<Rightarrow> py_error + unit" where
  "call_with_kwargs unpacked explicit =
     (if list_ex (\<lambda>k. k \<in> set unpacked) explicit then Inl TypeError else Inr ())"

text \<open>
  The construction \<open>PredictionRequest(**property_data.dict(), enable_ai_enrichment=...,
  model_preference=...)\<close> in the loop of the handler.
\<close>

definition to_prediction_request ::
  "batch_prediction_request \<Rightarrow> prediction_request \<Rightarrow> py_error + prediction_request" where
  "to_prediction_request batch_request property_data =
     (case call_with_kwargs prediction_request_fields [''enable_ai_enrichment'', ''model_preference''] of
        Inl e \<Rightarrow> Inl e
      | Inr _ \<Rightarrow>
          Inr (property_data\<lparr>enable_ai_enrichment := batch_enable_ai_enrichment batch_request,
                             model_preference := batch_model_preference batch_request\<rparr>))"

text \<open>
  The loop of the handler over the properties; \<open>new_uuid k\<close> is the \<open>k\<close>-th generated
  identifier.
\<close>

fun batch_loop ::
  "(real \<Rightarrow> string) \<Rightarrow> int \<Rightarrow> (nat \<Rightarrow> string) \<Rightarrow> ml_model_manager \<Rightarrow> batch_prediction_request
     \<Rightarrow> nat \<Rightarrow> prediction_request list \<Rightarrow> py_error + prediction_response list" where
  "batch_loop repr current_year new_uuid ml batch_request k [] = Inr []"
| "batch_loop repr current_year new_uuid ml batch_request k (property_data # rest) =
     (case to_prediction_request batch_request property_data of
        Inl e \<Rightarrow> Inl e
      | Inr pred_request \<Rightarrow>
          (case predict repr current_year (new_uuid k) ml pred_request
                  (batch_model_preference batch_request) of
             Inl e \<Rightarrow> Inl e
           | Inr prediction \<Rightarrow>
               (case batch_loop repr current_year new_uuid ml batch_request (Suc k) rest of
                  Inl e \<Rightarrow> Inl e
                | Inr others \<Rightarrow> Inr (prediction # others))))"

text \<open>
  The handler: the rate-limit check and the size check raise to the caller; every
  exception of the processing is turned into the response 500.
\<close>

definition batch_predict_prices ::
  "settings \<Rightarrow> (real \<Rightarrow> string) \<Rightarrow> int \<Rightarrow> (nat \<Rightarrow> string) \<Rightarrow> ml_model_manager
     \<Rightarrow> string \<Rightarrow> real \<Rightarrow> rate_limit_storage \<Rightarrow> batch_prediction_request
     \<Rightarrow> rate_limit_storage \<times> (py_error + batch_prediction_response)" where
  "batch_predict_prices cfg repr current_year new_uuid ml client_ip now storage batch_request =
     (case check_rate_limit cfg client_ip now storage of
        (storage', Inl e) \<Rightarrow> (storage', Inl e)
      | (storage', Inr _) \<Rightarrow>
          if int (length (properties batch_request)) > MAX_PREDICTION_BATCH_SIZE cfg then
            (storage', Inl (HTTPException 400
                              (BatchSizeExceedsMaximum (MAX_PREDICTION_BATCH_SIZE cfg))))
          else
            (case batch_loop repr current_year new_uuid ml batch_request 1
                    (properties batch_request) of
               Inl e \<Rightarrow>
                 (storage', Inl (HTTPException 500
                                   (Text ''Batch prediction service temporarily unavailable'')))
             | Inr preds \<Rightarrow>
                 (storage', Inr \<lparr>predictions = preds, batch_id = new_uuid 0,
                                 total_processed = length preds\<rparr>)))"

text \<open>The endpoint \<open>POST /predict/batch\<close>: the validation of the body, then the handler.\<close>

definition post_predict_batch ::
  "settings \<Rightarrow> (real \<Rightarrow> string) \<Rightarrow> int \<Rightarrow> (nat \<Rightarrow> string) \<Rightarrow> ml_model_manager
     \<Rightarrow> string \<Rightarrow> real \<Rightarrow> rate_limit_storage \<Rightarrow> batch_prediction_request
     \<Rightarrow> rate_limit_storage \<times> (py_error + batch_prediction_response)" where
  "post_predict_batch cfg repr current_year new_uuid ml client_ip now storage body =
     (case validate_batch_request body of
        Inl e \<Rightarrow> (storage, Inl e)
      | Inr batch_request \<Rightarrow>
          batch_predict_prices cfg repr current_year new_uuid ml client_ip now storage batch_request)"

text \<open>The status code of the response of an endpoint; a returned body is sent with 200.\<close>

definition response_status :: "py_error + 'a \<Rightarrow> nat" where
  "response_status r = (case r of Inl e \<Rightarrow> status_code e | Inr _ \<Rightarrow> 200)"

subsection \<open>routes.py: market\_analysis\<close>

text \<open>
  The value that the AI service returns is parsed JSON: any JSON value. The request to
  the service itself is outside the model; its result is the parameter \<open>ai_result\<close>
  (an empty dictionary when the service is disabled or fails).
\<close>

datatype json = JNull | JBool bool | JNum real | JStr string | JArr "json list"
  | JObj "(string \<times> json) list"

fun truthy :: "json \<Rightarrow> bool" where
  "truthy JNull = False"
| "truthy (JBool b) = b"
| "truthy (JNum x) = (x \<noteq> 0)"
| "truthy (JStr s) = (s \<noteq> [])"
| "truthy (JArr xs) = (xs \<noteq> [])"
| "truthy (JObj d) = (d \<noteq> [])"

text \<open>\<open>x.get(key, default)\<close>: only a dictionary has the method.\<close>

fun json_get :: "json \<Rightarrow> string \<Rightarrow> json \<Rightarrow> py_error + json" where
  "json_get (JObj d) k dflt = Inr (dict_get d k dflt)"
| "json_get other k dflt = Inl AttributeError"

text \<open>\<open>x / 2100\<close>: defined on numbers (a boolean is the number 0 or 1).\<close>

fun div_2100 :: "json \<Rightarrow> py_error + real" where
  "div_2100 (JNum x) = Inr (x / 2100)"
| "div_2100 (JBool b) = Inr ((if b then 1 else 0) / 2100)"
| "div_2100 other = Inl TypeError"

text \<open>The validation of the fields of \<open>MarketAnalysisResponse\<close>.\<close>

fun as_float :: "json \<Rightarrow> py_error + real" where
  "as_float (JNum x) = Inr x"
| "as_float (JBool b) = Inr (if b then 1 else 0)"
| "as_float other = Inl ValueError"

fun as_dict :: "json \<Rightarrow> py_error + (string \<times> json) list" where
  "as_dict (JObj d) = Inr d"
| "as_dict other = Inl ValueError"

fun as_str :: "json \<Rightarrow> string option" where
  "as_str (JStr s) = Some s"
| "as_str other = None"

fun as_str_list :: "json \<Rightarrow> py_error + string list" where
  "as_str_list (JArr xs) =
     (if list_all (\<lambda>x. as_str x \<noteq> None) xs then Inr (map (\<lambda>x. the (as_str x)) xs)
      else Inl ValueError)"
| "as_str_list other = Inl ValueError"

record market_analysis_request =
  analysis_location :: property_location
  analysis_property_type :: "property_type option"
  time_period_months :: int

text \<open>
  In the response, \<open>location_summary\<close> holds the city, the township and the number of
  months of the analysis period.
\<close>

record market_analysis_response =
  location_summary :: "string \<times> string \<times> int"
  average_price_mmk :: real
  average_price_usd :: real
  price_trends :: "(string \<times> json) list"
  market_activity :: "(string \<times> json) list"
  price_distribution :: "(string \<times> json) list"
  recommendations :: "string list"
  analysis_id :: string

definition fallback_market_data :: json where
  "fallback_market_data =
     JObj [(''market_overview'',
              JObj [(''current_trends'', JStr ''Market analysis unavailable''),
                    (''price_direction'', JStr ''stable''),
                    (''market_activity'', JStr ''medium'')]),
           (''pricing_analysis'',
              JObj [(''average_price_range'', JObj [(''min_mmk'', JNum 0), (''max_mmk'', JNum 0)])])]"

definition bind_error :: "py_error + 'a \<Rightarrow> ('a \<Rightarrow> py_error + 'b) \<Rightarrow> py_error + 'b" where
  "bind_error r f = (case r of Inl e \<Rightarrow> Inl e | Inr v \<Rightarrow> f v)"

text \<open>
  The body of the \<open>try\<close> block: the fallback, the arguments of the response in the
  order of their evaluation, and the validation of the response.
\<close>

definition market_analysis_body ::
  "string \<Rightarrow> market_analysis_request \<Rightarrow> json \<Rightarrow> py_error + market_analysis_response" where
  "market_analysis_body new_uuid analysis_request ai_result =
     (let market_data = (if \<not> truthy ai_result then fallback_market_data else ai_result) in
      bind_error (json_get market_data ''pricing_analysis'' (JObj [])) (\<lambda>pa.
      bind_error (json_get pa ''average_price_range'' (JObj [])) (\<lambda>price_range.
      bind_error (json_get price_range ''min_mmk'' (JNum 0)) (\<lambda>mmk.
      bind_error (div_2100 mmk) (\<lambda>usd.
      bind_error (json_get market_data ''market_overview'' (JObj [])) (\<lambda>overview.
      bind_error (json_get market_data ''recommendations''
                    (JArr [JStr ''Conduct thorough market research''])) (\<lambda>recs.
      bind_error (as_float mmk) (\<lambda>mmk_value.
      bind_error (as_dict overview) (\<lambda>overview_dict.
      bind_error (as_dict pa) (\<lambda>pa_dict.
      bind_error (as_str_list recs) (\<lambda>rec_list.
        Inr \<lparr>location_summary = (city (analysis_location analysis_request),
                                  township (analysis_location analysis_request),
                                  time_period_months analysis_request),
             average_price_mmk = mmk_value,
             average_price_usd = usd,
             price_trends = overview_dict,
             market_activity = overview_dict,
             price_distribution = pa_dict,
             recommendations = rec_list,
             analysis_id = new_uuid\<rparr>)))))))))))"

definition market_analysis ::
  "settings \<Rightarrow> string \<Rightarrow> string \<Rightarrow> real \<Rightarrow> rate_limit_storage \<Rightarrow> market_analysis_request \<Rightarrow> json
     \<Rightarrow> rate_limit_storage \<times> (py_error + market_analysis_response)" where
  "market_analysis cfg new_uuid client_ip now storage analysis_request ai_result =
     (case check_rate_limit cfg client_ip now storage of
        (storage', Inl e) \<Rightarrow> (storage', Inl e)
      | (storage', Inr _) \<Rightarrow>
          (case market_analysis_body new_uuid analysis_request ai_result of
             Inl e \<Rightarrow>
               (storage', Inl (HTTPException 500
                                 (Text ''Market analysis service temporarily unavailable'')))
           | Inr response \<Rightarrow> (storage', Inr response)))"

text \<open>
  The figure in the words of the specification: the \<open>min_mmk\<close> field of the
  \<open>average_price_range\<close> of the \<open>pricing_analysis\<close> of the market data, and 0 when it is
  absent.
\<close>

definition min_mmk_field :: "json \<Rightarrow> json option" where
  "min_mmk_field market_data =
     (case market_data of
        JObj d \<Rightarrow>
          (case map_of d ''pricing_analysis'' of
             Some (JObj pa) \<Rightarrow>
               (case map_of pa ''average_price_range'' of
                  Some (JObj price_range) \<Rightarrow> map_of price_range ''min_mmk''
                | _ \<Rightarrow> None)
           | _ \<Rightarrow> None)
      | _ \<Rightarrow> None)"

definition min_mmk_figure :: "json \<Rightarrow> real" where
  "min_mmk_figure market_data =
     (case min_mmk_field market_data of
        Some (JNum x) \<Rightarrow> x
      | Some (JBool b) \<Rightarrow> (if b then 1 else 0)
      | _ \<Rightarrow> 0)"

definition effective_market_data :: "json \<Rightarrow> json" where
  "effective_market_data ai_result = (if truthy ai_result then ai_result else fallback_market_data)"

section \<open>Example records\<close>

text \<open>
  An order of total 150 with a completed payment of 100, a second completed payment of
  the given amount and a pending payment of 70.
\<close>

definition ex_order :: "real \<Rightarrow> order_state \<Rightarrow> pos_order" where
  "ex_order second st =
     \<lparr>lines = [\<lparr>price_subtotal = 140, price_subtotal_incl = 150\<rparr>],
      payment_ids =
        [\<lparr>name = ''PAY/0001'', amount = 100, payment_date = 0, payment_status = Done,
          note = '''', is_change = False\<rparr>,
         \<lparr>name = ''PAY/0002'', amount = second, payment_date = 0, payment_status = Done,
          note = '''', is_change = False\<rparr>,
         \<lparr>name = ''PAY/0003'', amount = 70, payment_date = 0, payment_status = Pending,
          note = '''', is_change = False\<rparr>],
      state = st, receipt_number = ''R0001'', external_id = ''a1'',
      account_move_id = None, invoice_state = NotInvoiced\<rparr>"

text \<open>A condominium in Yangon with no neighborhood data, at the given coordinates.\<close>

definition ex_features :: property_features where
  "ex_features =
     \<lparr>bedrooms = 3, bathrooms = 2, floors = 1, parking_spaces = 1, balconies = 0,
      has_elevator = True, has_swimming_pool = False, has_gym = False, has_security = True,
      has_generator = False, has_water_tank = False, has_garden = False, has_garage = False,
      has_internet = True, has_cable_tv = False, has_air_conditioning = False\<rparr>"

definition ex_property :: "real option \<Rightarrow> real option \<Rightarrow> property_base" where
  "ex_property lat lon =
     \<lparr>property_type = CONDO, condition = GOOD, size_sqft = 1200, lot_size_sqft = None,
      year_built = Some 2015,
      location = \<lparr>city = ''Yangon'', township = ''Bahan'', ward = None, street = None,
                  latitude = lat, longitude = lon, location_tier = Some TIER_1\<rparr>,
      features = ex_features, neighborhood = None, description = None\<rparr>"

text \<open>A client address, and settings with a limit of two requests per minute.\<close>

definition ex_ip :: string where "ex_ip = ''203.0.113.7''"

definition ex_cfg :: settings where
  "ex_cfg = default_settings\<lparr>RATE_LIMIT_PER_MINUTE := 2\<rparr>"

text \<open>
  Two training rows, the feature engineer that fitting them yields, and an input with
  an unseen city, without \<open>size_sqft\<close> and with a feature the fit has not seen.
\<close>

definition ex_training :: "feature_dict list" where
  "ex_training =
     [[(''size_sqft'', Num 1000), (''city'', Str ''yangon'')],
      [(''size_sqft'', Num 3000), (''city'', Str ''mandalay'')]]"

definition ex_engineer :: feature_engineer where
  "ex_engineer =
     \<lparr>label_encoders = [(''city'', [''mandalay'', ''yangon''])],
      scaler = Some \<lparr>feature_names_in = [''size_sqft'', ''city''],
                     scaler_mean = [2000, 1/2], scaler_scale = [1000, 1/2]\<rparr>,
      feature_names = [''size_sqft'', ''city''],
      is_fitted = True\<rparr>"

definition ex_input :: feature_dict where
  "ex_input = [(''city'', Str ''bago''), (''bedrooms'', Num 3)]"

text \<open>
  A manager with two constant models, predicting 100 and 200, whose stored R-squared
  scores are the given one and 0.5.
\<close>

definition ex_metrics :: "string \<Rightarrow> real \<Rightarrow> model_performance_metrics" where
  "ex_metrics nm r2 =
     \<lparr>model_name = nm, mae = 1000, rmse = 1500, r2_score = r2, mape = 5,
      training_samples = 800, feature_count = 2\<rparr>"

definition ex_manager :: "real \<Rightarrow> ml_model_manager" where
  "ex_manager r2 =
     \<lparr>models = [(''xgboost'', \<lambda>X. 100), (''lightgbm'', \<lambda>X. 200)],
      feature_engineer = ex_engineer,
      model_metrics = [(''xgboost'', ex_metrics ''xgboost'' r2),
                       (''lightgbm'', ex_metrics ''lightgbm'' (1/2))],
      exchange_rate_usd_mmk = 2100\<rparr>"

text \<open>
  A prediction request, batches of copies of it, settings with a maximum batch size of
  two, and market data as the AI service may return it.
\<close>

definition ex_request :: prediction_request where
  "ex_request =
     \<lparr>property_type = CONDO, condition = GOOD, size_sqft = 1200, lot_size_sqft = None,
      year_built = Some 2015,
      location = \<lparr>city = ''Yangon'', township = ''Bahan'', ward = None, street = None,
                  latitude = None, longitude = None, location_tier = Some TIER_1\<rparr>,
      features = ex_features, neighborhood = None, description = None,
      enable_ai_enrichment = True, model_preference = None\<rparr>"

definition ex_cfg2 :: settings where
  "ex_cfg2 = default_settings\<lparr>MAX_PREDICTION_BATCH_SIZE := 2\<rparr>"

definition ex_batch :: "nat \<Rightarrow> batch_prediction_request" where
  "ex_batch n =
     \<lparr>properties = replicate n ex_request, batch_enable_ai_enrichment = False,
      batch_model_preference = None\<rparr>"

definition ex_market_data :: json where
  "ex_market_data =
     JObj [(''market_overview'', JObj [(''price_direction'', JStr ''rising'')]),
           (''pricing_analysis'',
              JObj [(''average_price_range'',
                       JObj [(''min_mmk'', JNum 210000000), (''max_mmk'', JNum 420000000)])]),
           (''recommendations'', JArr [JStr ''Buy near the new bridge''])]"

definition ex_analysis_request :: market_analysis_request where
  "ex_analysis_request =
     \<lparr>analysis_location = \<lparr>city = ''Yangon'', township = ''Bahan'', ward = None, street = None,
                            latitude = None, longitude = None, location_tier = None\<rparr>,
      analysis_property_type = Some CONDO, time_period_months = 12\<rparr>"

section \<open>Theorems\<close>

subsection \<open>Payments\<close>

lemma check_amount_ok_iff:
  "check_amount p = Inr () \<longleftrightarrow> (if is_change p then amount p < 0 else amount p > 0)"
  by (auto simp: check_amount_def)

lemma reverse_one_not_done:
  "payment_status p \<noteq> Done \<Longrightarrow>
     reverse_one str_dt now p = Inl (ValidationError ''Only confirmed payments can be reversed.'')"
  by (simp add: reverse_one_def)

text \<open>
  The reversal negates the amount and keeps \<open>is_change\<close>, so for every payment that
  satisfies the amount constraint the new record violates it: the creation raises, and
  no \<open>done\<close> payment that satisfies the constraint can be reversed.
\<close>

lemma reverse_one_valid_done_fails:
  assumes "check_amount p = Inr ()" and "payment_status p = Done"
  shows "reverse_one str_dt now p =
     Inl (ValidationError (if is_change p then ''Change amount must be negative.''
                           else ''Payment amount must be positive.''))"
  using assms
  by (auto simp: reverse_one_def copy_payment_def check_amount_def Let_def split: if_splits)

text \<open>
  When the creation of the copy is not rejected, the result is what the reversal is
  meant to be: the original marked \<open>reversed\<close> with the reversal note at the end of
  its note, and a new \<open>done\<close> payment of the negated amount.
\<close>

lemma reverse_one_result:
  assumes "reverse_one str_dt now p = Inr (written, reversed_payment)"
  shows "payment_status p = Done \<and> payment_status written = Reversed
     \<and> amount written = amount p
     \<and> (\<exists>pre. note written = pre @ ''Payment reversed on '' @ str_dt now)
     \<and> payment_status reversed_payment = Done
     \<and> amount reversed_payment = - amount p
     \<and> is_change reversed_payment = is_change p"
  using assms
  by (auto simp: reverse_one_def copy_payment_def Let_def split: if_splits sum.splits)

text \<open>
  C1. The specification: reversing a \<open>done\<close> payment marks it \<open>reversed\<close> and returns
  a new \<open>done\<close> payment of the negated amount. The code at the \<open>done\<close> payment of amount 50
  (not a change payment) of the specification's own example: the copy of amount \<open>-50\<close>
  is rejected by the amount constraint, and \<open>reverse_payment\<close> raises a validation
  error instead of returning the reversal.
\<close>

theorem reverse_payment_done_50_rejected:
  "reverse_payment (\<lambda>t. ''2024-05-01 10:00:00'') 0
     [\<lparr>name = ''PAY/0001'', amount = 50, payment_date = 0, payment_status = Done,
       note = '''', is_change = False\<rparr>]
   = Inl (ValidationError ''Payment amount must be positive.'')"
  by (simp add: reverse_one_def copy_payment_def check_amount_def)

subsection \<open>Orders\<close>

lemma filter_done_not_change:
  "filter (\<lambda>payment. \<not> is_change payment) (filter (\<lambda>p. payment_status p = Done) ps)
   = filter (\<lambda>p. payment_status p = Done \<and> \<not> is_change p) ps"
  by (induction ps) auto

text \<open>
  C2. For an order in state draft, \<open>action_paid\<close> writes the state \<open>paid\<close> when the sum
  of the amounts of the completed (\<open>done\<close>) non-change payments is at least the order's
  total, and otherwise raises the "not fully paid" user error (no record is written).
\<close>

theorem action_paid_draft:
  assumes "state order = Draft"
  shows "action_paid [order] =
     (if sum_list (map amount (filter (\<lambda>p. payment_status p = Done \<and> \<not> is_change p) (payment_ids order)))
           \<ge> sum_list (map price_subtotal_incl (lines order))
      then Inr ([order\<lparr>state := Paid\<rparr>], True)
      else Inl (UserError ''Cannot mark as paid: Order is not fully paid.''))"
  using assms
  by (simp add: action_paid_def amount_paid_def amount_total_def filter_done_not_change not_less)

theorem action_paid_draft_witness:
  "state (ex_order 50 Draft) = Draft
   \<and> action_paid [ex_order 50 Draft] = Inr ([ex_order 50 Paid], True)
   \<and> state (ex_order 0 Draft) = Draft
   \<and> action_paid [ex_order 0 Draft] = Inl (UserError ''Cannot mark as paid: Order is not fully paid.'')"
  using action_paid_draft [of "ex_order 50 Draft"] action_paid_draft [of "ex_order 0 Draft"]
  by (simp add: ex_order_def)

lemma action_paid_loop_no_draft:
  "\<forall>order \<in> set self. state order \<noteq> Draft \<Longrightarrow> action_paid_loop self = Inr self"
  by (induction self) auto

text \<open>
  C10. For an order whose state is not draft, \<open>action_paid\<close> skips the order: the record
  is returned as it was, with the result \<open>True\<close> and no error. By contrast
  \<open>action_cancel\<close> raises on the states done and invoiced, and \<open>action_create_invoice\<close>
  raises on every state other than paid and done.
\<close>

theorem action_paid_not_draft_noop:
  assumes "state order \<noteq> Draft"
  shows "action_paid [order] = Inr ([order], True)
     \<and> (state order \<in> {OrderDone, Invoiced} \<longrightarrow>
          action_cancel str_dt now [order] = Inl (UserError ''Cannot cancel a completed order.''))
     \<and> (state order \<notin> {Paid, OrderDone} \<longrightarrow>
          action_create_invoice create_move [order] = Inl (UserError ''Cannot create invoice for unpaid order.''))"
  using assms
  by (simp add: action_paid_def action_cancel_def action_create_invoice_def)

theorem action_paid_not_draft_noop_witness:
  "state (ex_order 50 Invoiced) \<noteq> Draft
   \<and> action_paid [ex_order 50 Invoiced] = Inr ([ex_order 50 Invoiced], True)
   \<and> state (ex_order 50 Invoiced) \<in> {OrderDone, Invoiced}
   \<and> action_cancel (\<lambda>t. '''') 0 [ex_order 50 Invoiced] = Inl (UserError ''Cannot cancel a completed order.'')
   \<and> state (ex_order 50 Invoiced) \<notin> {Paid, OrderDone}
   \<and> action_create_invoice (\<lambda>order. 0) [ex_order 50 Invoiced]
       = Inl (UserError ''Cannot create invoice for unpaid order.'')"
  using action_paid_not_draft_noop [of "ex_order 50 Invoiced" "\<lambda>t. ''''" 0 "\<lambda>order. 0"]
  by (simp add: ex_order_def)

subsection \<open>Product prices\<close>

text \<open>
  C3. For every product template and every evaluation time \<open>now\<close>, \<open>get_current_price\<close>
  returns the discount price if a discount price is set and \<open>now\<close> lies within
  \<open>[discount_start, discount_end]\<close>; otherwise the shop selling price if set; otherwise
  the base list price.
\<close>

theorem get_current_price_spec: "get_current_price now p = current_price_spec now p"
  by (auto simp: get_current_price_def current_price_spec_def within_discount_window_def
           split: option.splits)

lemma get_current_price_examples:
  "get_current_price 5000 \<lparr>list_price = 120, list_price_shop = 100, discount_price = 90,
      discount_start = Some 1400, discount_end = Some 8600\<rparr> = 90"
  "get_current_price 9000 \<lparr>list_price = 120, list_price_shop = 100, discount_price = 90,
      discount_start = Some 1400, discount_end = Some 8600\<rparr> = 100"
  "get_current_price 9000 \<lparr>list_price = 120, list_price_shop = 0, discount_price = 90,
      discount_start = Some 1400, discount_end = Some 8600\<rparr> = 120"
  by (simp_all add: get_current_price_def)

subsection \<open>Feature creation\<close>

lemma map_of_neighborhood_part_center:
  "map_of (neighborhood_part nb) ''distance_to_city_center_km'' = Some (Num (center_distance_feature nb))"
  by (simp add: neighborhood_part_def center_distance_feature_def or_float_def Let_def split: option.splits)

lemma cbd_notin_neighborhood:
  "map_of (neighborhood_part nb) ''distance_from_cbd'' = None"
  by (simp add: neighborhood_part_def Let_def split: option.splits)

lemma create_features_nonzero_coordinates:
  assumes "latitude (location p) = Some la" "la \<noteq> 0" "longitude (location p) = Some lo" "lo \<noteq> 0"
    and "size_sqft p \<noteq> 0"
  shows "\<exists>fs. create_features cy p = Inr fs
     \<and> map_of fs ''distance_from_cbd'' = Some (Num (calculate_distance la lo (167967/10000) (96161/1000)))"
  using assms
  by (auto simp: create_features_def Let_def truthy_float_def cbd_notin_neighborhood map_add_def)

text \<open>
  C9. In \<open>create_features\<close> a latitude or longitude equal to \<open>0.0\<close> is treated as an
  absent coordinate: for every property with latitude 0 or longitude 0 the features are
  those of the same property without coordinates, and \<open>distance_from_cbd\<close> is the
  (defaulted) distance-to-city-center feature, not the haversine distance.
\<close>

theorem create_features_zero_coordinate:
  assumes "latitude (location p) = Some 0 \<or> longitude (location p) = Some 0"
  shows "create_features cy p =
           create_features cy (p\<lparr>location := (location p)\<lparr>latitude := None, longitude := None\<rparr>\<rparr>)
     \<and> (size_sqft p \<noteq> 0 \<longrightarrow>
          (\<exists>fs. create_features cy p = Inr fs
             \<and> map_of fs ''distance_from_cbd'' = Some (Num (center_distance_feature (neighborhood p)))
             \<and> map_of fs ''distance_from_cbd'' = map_of fs ''distance_to_city_center_km''))"
  using assms
  by (auto simp: create_features_def Let_def truthy_float_def dict_get_def
        map_of_neighborhood_part_center cbd_notin_neighborhood map_add_def)

theorem create_features_zero_coordinate_witness:
  "latitude (location (ex_property (Some 0) (Some 96))) = Some 0
   \<and> size_sqft (ex_property (Some 0) (Some 96)) \<noteq> 0
   \<and> create_features 2024 (ex_property (Some 0) (Some 96)) = create_features 2024 (ex_property None None)
   \<and> (\<exists>fs. create_features 2024 (ex_property (Some 0) (Some 96)) = Inr fs
          \<and> map_of fs ''distance_from_cbd'' = Some (Num 25))"
proof -
  have lat: "latitude (location (ex_property (Some 0) (Some 96))) = Some 0"
    by (simp add: ex_property_def)
  have size: "size_sqft (ex_property (Some 0) (Some 96)) \<noteq> 0"
    by (simp add: ex_property_def)
  have upd: "(ex_property (Some 0) (Some 96))
               \<lparr>location := (location (ex_property (Some 0) (Some 96)))
                   \<lparr>latitude := None, longitude := None\<rparr>\<rparr> = ex_property None None"
    by (simp add: ex_property_def)
  have dist: "center_distance_feature (neighborhood (ex_property (Some 0) (Some 96))) = 25"
    by (simp add: ex_property_def center_distance_feature_def)
  have main: "create_features 2024 (ex_property (Some 0) (Some 96)) = create_features 2024 (ex_property None None)
     \<and> (\<exists>fs. create_features 2024 (ex_property (Some 0) (Some 96)) = Inr fs
             \<and> map_of fs ''distance_from_cbd'' = Some (Num 25)
             \<and> map_of fs ''distance_from_cbd'' = map_of fs ''distance_to_city_center_km'')"
    using create_features_zero_coordinate [of "ex_property (Some 0) (Some 96)" 2024] lat size
    unfolding upd dist by blast
  from lat size main show ?thesis by blast
qed

subsection \<open>Rate limiting\<close>

lemma check_rate_limit_step:
  "check_rate_limit cfg ip now st =
     (let kept = filter (\<lambda>t. now - t < 60) (recorded st ip) in
      if RATE_LIMIT_PER_MINUTE cfg \<le> int (length kept)
      then (st(ip \<mapsto> kept), Inl (RateLimitException (Some 60)))
      else (st(ip \<mapsto> kept @ [now]), Inr ()))"
proof -
  have eq: "(\<lambda>timestamp. timestamp > now - 60) = (\<lambda>t. now - t < 60)"
    by (rule ext) linarith
  show ?thesis
    by (cases "st ip")
       (simp_all add: check_rate_limit_def recorded_def rate_limit_exception_def Let_def eq)
qed

lemma recorded_upd: "recorded (st(ip \<mapsto> l)) ip = l"
  by (simp add: recorded_def)

lemma run_requests_admits:
  assumes "recorded st ip = pre"
    and "\<forall>a \<in> set (pre @ ts). \<forall>b \<in> set (pre @ ts). b - a < 60"
    and "int (length (pre @ ts)) \<le> RATE_LIMIT_PER_MINUTE cfg"
  shows "recorded (fst (run_requests cfg ip ts st)) ip = pre @ ts
       \<and> snd (run_requests cfg ip ts st) = map (\<lambda>t. Inr ()) ts"
  using assms
proof (induction ts arbitrary: st pre)
  case Nil
  then show ?case by simp
next
  case (Cons t ts)
  have kept: "filter (\<lambda>u. t - u < 60) pre = pre"
    using Cons.prems(2) by (auto simp: filter_id_conv)
  have step: "check_rate_limit cfg ip t st = (st(ip \<mapsto> pre @ [t]), Inr ())"
    using Cons.prems(1,3) by (simp add: check_rate_limit_step kept)
  have "recorded (fst (run_requests cfg ip ts (st(ip \<mapsto> pre @ [t])))) ip = (pre @ [t]) @ ts
       \<and> snd (run_requests cfg ip ts (st(ip \<mapsto> pre @ [t]))) = map (\<lambda>t. Inr ()) ts"
  proof (rule Cons.IH)
    show "recorded (st(ip \<mapsto> pre @ [t])) ip = pre @ [t]"
      by (rule recorded_upd)
    show "\<forall>a \<in> set ((pre @ [t]) @ ts). \<forall>b \<in> set ((pre @ [t]) @ ts). b - a < 60"
      using Cons.prems(2) by simp
    show "int (length ((pre @ [t]) @ ts)) \<le> RATE_LIMIT_PER_MINUTE cfg"
      using Cons.prems(3) by simp
  qed
  then show ?case by (auto simp: step split: prod.splits)
qed

lemma check_rate_limit_full_window:
  assumes "recorded st ip = l"
    and "\<forall>a \<in> set l. t - a < 60"
    and "int (length l) \<ge> RATE_LIMIT_PER_MINUTE cfg"
  shows "snd (check_rate_limit cfg ip t st) = Inl (RateLimitException (Some 60))"
proof -
  have "filter (\<lambda>u. t - u < 60) l = l"
    using assms(2) by (auto simp: filter_id_conv)
  then show ?thesis using assms(1,3) by (simp add: check_rate_limit_step)
qed

lemma check_rate_limit_after_window:
  assumes "\<forall>a \<in> set (recorded st ip). t - a \<ge> 60" and "RATE_LIMIT_PER_MINUTE cfg \<ge> 1"
  shows "check_rate_limit cfg ip t st = (st(ip \<mapsto> [t]), Inr ())"
proof -
  have "filter (\<lambda>u. t - u < 60) (recorded st ip) = []"
    using assms(1) by (auto simp: filter_empty_conv)
  then show ?thesis using assms(2) by (simp add: check_rate_limit_step)
qed

text \<open>
  C6 (as amended). For every client and storage the check keeps exactly the client's
  timestamps that are less than 60 seconds old (a timestamp 60 seconds old or older is
  discarded), rejects with a rate-limit error carrying \<open>retry_after = 60\<close> exactly when
  the kept count is at least the configured limit, and otherwise records the request.
  Starting with no recorded timestamps, as many requests as the limit allows, all less
  than 60 seconds apart, are admitted and the next one in that window is rejected (with
  limit 60: the 61st). A request that arrives when every recorded timestamp is at least
  60 seconds old is admitted again (for a limit of at least one).
\<close>

theorem check_rate_limit_window:
  "check_rate_limit cfg ip now st =
     (let kept = filter (\<lambda>t. now - t < 60) (recorded st ip) in
      if RATE_LIMIT_PER_MINUTE cfg \<le> int (length kept)
      then (st(ip \<mapsto> kept), Inl (RateLimitException (Some 60)))
      else (st(ip \<mapsto> kept @ [now]), Inr ()))
   \<and> (recorded st ip = [] \<and> int (length ts) = RATE_LIMIT_PER_MINUTE cfg
        \<and> (\<forall>a \<in> set (ts @ [t]). \<forall>b \<in> set (ts @ [t]). b - a < 60)
       \<longrightarrow> snd (run_requests cfg ip ts st) = map (\<lambda>t. Inr ()) ts
          \<and> snd (check_rate_limit cfg ip t (fst (run_requests cfg ip ts st)))
               = Inl (RateLimitException (Some 60)))
   \<and> (RATE_LIMIT_PER_MINUTE cfg \<ge> 1 \<and> (\<forall>a \<in> set (recorded st' ip). t' - a \<ge> 60)
       \<longrightarrow> check_rate_limit cfg ip t' st' = (st'(ip \<mapsto> [t']), Inr ()))"
proof (intro conjI impI)
  show "check_rate_limit cfg ip now st =
     (let kept = filter (\<lambda>t. now - t < 60) (recorded st ip) in
      if RATE_LIMIT_PER_MINUTE cfg \<le> int (length kept)
      then (st(ip \<mapsto> kept), Inl (RateLimitException (Some 60)))
      else (st(ip \<mapsto> kept @ [now]), Inr ()))"
    by (rule check_rate_limit_step)
next
  assume h: "recorded st ip = [] \<and> int (length ts) = RATE_LIMIT_PER_MINUTE cfg
        \<and> (\<forall>a \<in> set (ts @ [t]). \<forall>b \<in> set (ts @ [t]). b - a < 60)"
  then have adm: "recorded (fst (run_requests cfg ip ts st)) ip = [] @ ts
       \<and> snd (run_requests cfg ip ts st) = map (\<lambda>t. Inr ()) ts"
    by (intro run_requests_admits) auto
  then show "snd (run_requests cfg ip ts st) = map (\<lambda>t. Inr ()) ts" by simp
  show "snd (check_rate_limit cfg ip t (fst (run_requests cfg ip ts st)))
               = Inl (RateLimitException (Some 60))"
    using adm h by (intro check_rate_limit_full_window [where l = ts]) auto
next
  assume "RATE_LIMIT_PER_MINUTE cfg \<ge> 1 \<and> (\<forall>a \<in> set (recorded st' ip). t' - a \<ge> 60)"
  then show "check_rate_limit cfg ip t' st' = (st'(ip \<mapsto> [t']), Inr ())"
    by (intro check_rate_limit_after_window) auto
qed

text \<open>
  The rule as the specification states it discards only the timestamps older than 60
  seconds. With the
  default limit of 60 and 60 requests recorded at time 0, a request at time 60 finds
  timestamps that are not older than 60 seconds, so the stated rule rejects it; the code
  discards them and admits the request.
\<close>

theorem check_rate_limit_boundary_counterexample:
  "\<not> older_than_60 60 0
   \<and> snd (check_rate_limit_spec default_settings ex_ip 60 [ex_ip \<mapsto> replicate 60 0])
       = Inl (RateLimitException (Some 60))
   \<and> check_rate_limit default_settings ex_ip 60 [ex_ip \<mapsto> replicate 60 0]
       = ([ex_ip \<mapsto> [60]], Inr ())"
  by (simp add: check_rate_limit_step check_rate_limit_spec_def recorded_def older_than_60_def
        default_settings_def)

theorem check_rate_limit_window_witness:
  "check_rate_limit ex_cfg ex_ip 65 [ex_ip \<mapsto> [0, 10]] = ([ex_ip \<mapsto> [10, 65]], Inr ())
   \<and> recorded Map.empty ex_ip = [] \<and> int (length [0, 10 :: real]) = RATE_LIMIT_PER_MINUTE ex_cfg
   \<and> snd (run_requests ex_cfg ex_ip [0, 10] Map.empty) = [Inr (), Inr ()]
   \<and> snd (check_rate_limit ex_cfg ex_ip 20 (fst (run_requests ex_cfg ex_ip [0, 10] Map.empty)))
        = Inl (RateLimitException (Some 60))
   \<and> RATE_LIMIT_PER_MINUTE ex_cfg \<ge> 1
   \<and> check_rate_limit ex_cfg ex_ip 70 [ex_ip \<mapsto> [0, 10]] = ([ex_ip \<mapsto> [70]], Inr ())"
proof -
  have step: "check_rate_limit ex_cfg ex_ip 65 [ex_ip \<mapsto> [0, 10]] = ([ex_ip \<mapsto> [10, 65]], Inr ())"
    using check_rate_limit_window [of ex_cfg ex_ip 65 "[ex_ip \<mapsto> [0, 10]]"]
    by (simp add: recorded_def ex_cfg_def default_settings_def)
  have full: "recorded Map.empty ex_ip = [] \<and> int (length [0, 10 :: real]) = RATE_LIMIT_PER_MINUTE ex_cfg
        \<and> (\<forall>a \<in> set ([0, 10] @ [20 :: real]). \<forall>b \<in> set ([0, 10] @ [20]). b - a < 60)"
    by (simp add: recorded_def ex_cfg_def default_settings_def)
  have reject: "snd (run_requests ex_cfg ex_ip [0, 10] Map.empty) = map (\<lambda>t. Inr ()) [0, 10 :: real]
     \<and> snd (check_rate_limit ex_cfg ex_ip 20 (fst (run_requests ex_cfg ex_ip [0, 10] Map.empty)))
          = Inl (RateLimitException (Some 60))"
    using check_rate_limit_window [of ex_cfg ex_ip 0 Map.empty "[0, 10]" 20] full by blast
  have after: "RATE_LIMIT_PER_MINUTE ex_cfg \<ge> 1
        \<and> (\<forall>a \<in> set (recorded [ex_ip \<mapsto> [0, 10]] ex_ip). 70 - a \<ge> 60)"
    by (simp add: recorded_def ex_cfg_def default_settings_def)
  have again: "check_rate_limit ex_cfg ex_ip 70 [ex_ip \<mapsto> [0, 10]] = ([ex_ip \<mapsto> [70]], Inr ())"
    using check_rate_limit_window [of ex_cfg ex_ip 0 Map.empty "[]" 0 "[ex_ip \<mapsto> [0, 10]]" 70] after
    by simp
  from step full reject after again show ?thesis by simp
qed

subsection \<open>Feature transformation\<close>

lemma sqrt_million: "sqrt 1000000 = 1000"
  by (rule real_sqrt_unique) simp_all

lemma fit_encode_columns: "columns (fst (fit_encode repr col st)) = columns (fst st)"
  by (cases st) (simp add: fit_encode_def Let_def)

lemma fold_fit_encode_columns:
  "columns (fst (fold (fit_encode repr) cols st)) = columns (fst st)"
  by (induction cols arbitrary: st) (simp_all add: fit_encode_columns)

lemma fit_encode_keeps_encoder:
  "map_of (snd st) c \<noteq> None \<Longrightarrow> map_of (snd (fit_encode repr col st)) c \<noteq> None"
  by (cases st) (simp add: fit_encode_def Let_def update_conv')

lemma fit_encode_adds_encoder:
  "col \<in> set (columns (fst st)) \<Longrightarrow> map_of (snd (fit_encode repr col st)) col \<noteq> None"
  by (cases st) (simp add: fit_encode_def Let_def update_conv')

lemma fold_fit_encode_keeps:
  "map_of (snd st) c \<noteq> None \<Longrightarrow> map_of (snd (fold (fit_encode repr) cols st)) c \<noteq> None"
proof (induction cols arbitrary: st)
  case Nil
  then show ?case by simp
next
  case (Cons a cols)
  from Cons.prems have "map_of (snd (fit_encode repr a st)) c \<noteq> None"
    by (rule fit_encode_keeps_encoder)
  then have "map_of (snd (fold (fit_encode repr) cols (fit_encode repr a st))) c \<noteq> None"
    by (rule Cons.IH)
  then show ?case by simp
qed

lemma fold_fit_encode_encoders:
  "c \<in> set cols \<Longrightarrow> c \<in> set (columns (fst st))
     \<Longrightarrow> map_of (snd (fold (fit_encode repr) cols st)) c \<noteq> None"
proof (induction cols arbitrary: st)
  case Nil
  then show ?case by simp
next
  case (Cons a cols)
  show ?case
  proof (cases "c = a")
    case True
    then have "map_of (snd (fit_encode repr a st)) c \<noteq> None"
      using Cons.prems(2) by (simp add: fit_encode_adds_encoder)
    then show ?thesis by (simp add: fold_fit_encode_keeps)
  next
    case False
    then have "c \<in> set cols" using Cons.prems(1) by simp
    moreover have "c \<in> set (columns (fst (fit_encode repr a st)))"
      using Cons.prems(2) by (simp add: fit_encode_columns)
    ultimately show ?thesis using Cons.IH by simp
  qed
qed

lemma fit_transform_establishes_inv:
  assumes "fit_transform repr fe0 training = (fe, Inr X)"
  shows "fitted_inv fe"
proof -
  obtain df enc where f: "fold (fit_encode repr) categorical_cols (DataFrame training, label_encoders fe0) = (df, enc)"
    by (cases "fold (fit_encode repr) categorical_cols (DataFrame training, label_encoders fe0)")
  from assms f obtain sc where
    sc: "scaler_fit_transform df = Inr (sc, X)"
    and fe: "fe = fe0\<lparr>label_encoders := enc, feature_names := columns df,
                       scaler := Some sc, is_fitted := True\<rparr>"
    by (auto simp: fit_transform_def Let_def split: sum.splits prod.splits)
  from sc have scp: "feature_names_in sc = columns df"
      "length (scaler_mean sc) = length (columns df)"
      "length (scaler_scale sc) = length (columns df)"
    by (auto simp: scaler_fit_transform_def Let_def split: if_splits)
  have enc: "c \<in> set categorical_cols \<Longrightarrow> c \<in> set (columns df) \<Longrightarrow> map_of enc c \<noteq> None" for c
  proof -
    assume c: "c \<in> set categorical_cols" "c \<in> set (columns df)"
    have "columns df = columns (DataFrame training)"
      using fold_fit_encode_columns [of repr categorical_cols "(DataFrame training, label_encoders fe0)"] f
      by simp
    with c have "map_of (snd (fold (fit_encode repr) categorical_cols (DataFrame training, label_encoders fe0))) c \<noteq> None"
      by (intro fold_fit_encode_encoders) simp_all
    then show ?thesis by (simp add: f)
  qed
  show ?thesis
    unfolding fitted_inv_def using scp enc by (simp add: fe list_all_iff)
qed

lemma map_of_encode_column_other:
  "n \<noteq> col \<Longrightarrow> map_of (encode_column repr enc col df) n = map_of df n"
  by (simp add: encode_column_def update_conv' split: option.splits sum.splits)

lemma map_of_encode_column_same:
  "map_of (encode_column repr enc col df) col =
     (case map_of df col of
        None \<Rightarrow> None
      | Some v \<Rightarrow>
          (case map_of enc col of
             None \<Rightarrow> Some v
           | Some classes \<Rightarrow>
               Some (Num (if astype_str repr (Some v) \<in> set classes
                          then real (index_of classes (astype_str repr (Some v))) else 0))))"
  by (simp add: encode_column_def le_transform_def update_conv' split: option.splits)

lemma map_of_fold_encode:
  "distinct cols \<Longrightarrow>
     map_of (fold (encode_column repr enc) cols df) n =
       (if n \<in> set cols then map_of (encode_column repr enc n df) n else map_of df n)"
proof (induction cols arbitrary: df)
  case Nil
  then show ?case by simp
next
  case (Cons c cols)
  then have ih: "map_of (fold (encode_column repr enc) cols (encode_column repr enc c df)) n =
       (if n \<in> set cols then map_of (encode_column repr enc n (encode_column repr enc c df)) n
        else map_of (encode_column repr enc c df) n)"
    by simp
  show ?case
  proof (cases "n = c")
    case True
    with Cons.prems ih show ?thesis by simp
  next
    case False
    then have "map_of (encode_column repr enc n (encode_column repr enc c df)) n
                 = map_of (encode_column repr enc n df) n"
      by (simp add: map_of_encode_column_same map_of_encode_column_other)
    with False ih show ?thesis by (simp add: map_of_encode_column_other)
  qed
qed

lemma map_of_fill_missing:
  "map_of (fill_missing a df) n =
     (case map_of df n of Some v \<Rightarrow> Some v | None \<Rightarrow> if n = a then Some (Num 0) else None)"
  by (auto simp: fill_missing_def map_add_def split: option.splits)

lemma map_of_fold_fill:
  "map_of (fold fill_missing names df) n =
     (case map_of df n of Some v \<Rightarrow> Some v
      | None \<Rightarrow> if n \<in> set names then Some (Num 0) else None)"
  by (induction names arbitrary: df) (auto simp: map_of_fill_missing split: option.splits)

lemma select_columns_present:
  "\<forall>n \<in> set ns. map_of df n = Some (g n) \<Longrightarrow> select_columns ns df = Inr (map g ns)"
  by (induction ns) simp_all

lemma as_floats_nums: "as_floats (map (\<lambda>n. Num (h n)) ns) = Inr (map h ns)"
  by (induction ns) simp_all

lemma select_columns_error: "select_columns ns df = Inl e \<Longrightarrow> e = KeyError"
  by (induction ns arbitrary: e) (auto split: option.splits sum.splits)

lemma as_floats_error: "as_floats vs = Inl e \<Longrightarrow> e = ValueError"
  by (induction vs arbitrary: e rule: as_floats.induct) (auto split: sum.splits)

lemma transform_not_fitted_iff:
  "transform repr fe f = Inl (MLModelException ''FeatureEngineer not fitted yet'') \<longleftrightarrow> \<not> is_fitted fe"
  by (auto simp: transform_def scaler_transform_def Let_def
           split: sum.splits option.splits if_splits
           dest: select_columns_error as_floats_error)

lemma categorical_distinct: "distinct categorical_cols"
  by (simp add: categorical_cols_def)

lemma transformed_cell:
  assumes inv: "fitted_inv fe" and num: "numeric_features fe f"
    and n: "n \<in> set (feature_names fe)"
  shows "map_of (fold fill_missing (feature_names fe)
                  (fold (encode_column repr (label_encoders fe)) categorical_cols f)) n
           = Some (Num (encoded_value repr fe f n))"
proof (cases "n \<in> set categorical_cols")
  case True
  with inv n obtain classes where cl: "map_of (label_encoders fe) n = Some classes"
    by (auto simp: fitted_inv_def list_all_iff)
  show ?thesis
    using True n cl
    by (simp add: map_of_fold_fill map_of_fold_encode categorical_distinct
          map_of_encode_column_same encoded_value_def split: option.splits)
next
  case False
  with num n have "\<And>s. map_of f n \<noteq> Some (Str s)"
    by (auto simp: numeric_features_def list_all_iff split: option.splits fval.splits)
  then show ?thesis
    using False n
    by (auto simp: map_of_fold_fill map_of_fold_encode categorical_distinct
          encoded_value_def split: option.splits fval.splits)
qed

lemma transform_fitted:
  assumes inv: "fitted_inv fe" and num: "numeric_features fe f"
  shows "transform repr fe f = Inr (expected_vector repr fe f)"
    and "length (expected_vector repr fe f) = length (feature_names fe)"
proof -
  from inv obtain sc where sc: "scaler fe = Some sc" "feature_names_in sc = feature_names fe"
      "length (scaler_mean sc) = length (feature_names fe)"
      "length (scaler_scale sc) = length (feature_names fe)"
    and fitted: "is_fitted fe"
    by (auto simp: fitted_inv_def split: option.splits)
  let ?df = "fold fill_missing (feature_names fe)
                  (fold (encode_column repr (label_encoders fe)) categorical_cols f)"
  have sel: "select_columns (feature_names fe) ?df
               = Inr (map (\<lambda>n. Num (encoded_value repr fe f n)) (feature_names fe))"
    by (rule select_columns_present) (simp add: transformed_cell [OF inv num])
  show "transform repr fe f = Inr (expected_vector repr fe f)"
    using fitted sc
    by (simp add: transform_def Let_def sel scaler_transform_def as_floats_nums
          expected_vector_def zip_map1 split_def)
  show "length (expected_vector repr fe f) = length (feature_names fe)"
    using sc by (simp add: expected_vector_def)
qed

lemma encoded_value_missing: "map_of f n = None \<Longrightarrow> encoded_value repr fe f n = 0"
  by (simp add: encoded_value_def)

lemma encoded_value_unseen:
  assumes "n \<in> set categorical_cols" and "map_of (label_encoders fe) n = Some classes"
    and "map_of f n = Some (Str s)" and "s \<notin> set classes"
  shows "encoded_value repr fe f n = 0"
  using assms by (simp add: encoded_value_def astype_str_def)

text \<open>
  C5. \<open>transform\<close> raises the "not fitted" ML-model error if and only if the object
  is not fitted (as it is before \<open>fit_transform\<close>). After a \<open>fit_transform\<close> that
  returned, for every feature map whose non-categorical canonical features are numbers
  (also one with a categorical value the fit has not seen, which becomes the index 0,
  and one without some canonical features, which become 0), \<open>transform\<close> does not raise
  and returns the vector of the scaled values in the order of the canonical feature
  names.
\<close>

theorem transform_after_fit:
  "transform repr FeatureEngineer_init f = Inl (MLModelException ''FeatureEngineer not fitted yet'')
   \<and> (transform repr fe f = Inl (MLModelException ''FeatureEngineer not fitted yet'') \<longleftrightarrow> \<not> is_fitted fe)
   \<and> (fit_transform repr fe0 training = (fe', Inr X) \<and> numeric_features fe' f' \<longrightarrow>
        is_fitted fe' \<and> transform repr fe' f' = Inr (expected_vector repr fe' f')
        \<and> length (expected_vector repr fe' f') = length (feature_names fe'))"
proof (intro conjI impI)
  show "transform repr FeatureEngineer_init f = Inl (MLModelException ''FeatureEngineer not fitted yet'')"
    by (simp add: transform_def FeatureEngineer_init_def)
  show "transform repr fe f = Inl (MLModelException ''FeatureEngineer not fitted yet'') \<longleftrightarrow> \<not> is_fitted fe"
    by (rule transform_not_fitted_iff)
next
  assume h: "fit_transform repr fe0 training = (fe', Inr X) \<and> numeric_features fe' f'"
  then have inv: "fitted_inv fe'" by (auto dest: fit_transform_establishes_inv)
  then show "is_fitted fe'" by (simp add: fitted_inv_def)
  from inv h show "transform repr fe' f' = Inr (expected_vector repr fe' f')"
    by (simp add: transform_fitted)
  from inv h show "length (expected_vector repr fe' f') = length (feature_names fe')"
    by (simp add: transform_fitted)
qed

theorem transform_after_fit_witness:
  "fit_transform (\<lambda>x. '''') FeatureEngineer_init ex_training
     = (ex_engineer, Inr [[Some (- 1), Some 1], [Some 1, Some (- 1)]])
   \<and> numeric_features ex_engineer ex_input
   \<and> is_fitted ex_engineer
   \<and> transform (\<lambda>x. '''') ex_engineer ex_input = Inr [- 2, - 1]"
proof -
  have fit: "fit_transform (\<lambda>x. '''') FeatureEngineer_init ex_training
     = (ex_engineer, Inr [[Some (- 1), Some 1], [Some 1, Some (- 1)]])"
    by (simp add: fit_transform_def FeatureEngineer_init_def ex_training_def ex_engineer_def
       categorical_cols_def fit_encode_def DataFrame_def first_seen_def le_fit_def astype_str_def
       scaler_fit_transform_def has_string_cell_def column_numbers_def column_mean_def
       column_scale_def scale_cell_def Let_def sqrt_million real_sqrt_divide power2_eq_square)
  have num: "numeric_features ex_engineer ex_input"
    by (simp add: numeric_features_def ex_engineer_def ex_input_def categorical_cols_def)
  have vec: "expected_vector (\<lambda>x. '''') ex_engineer ex_input = [- 2, - 1]"
    by (simp add: expected_vector_def encoded_value_def ex_engineer_def ex_input_def
          categorical_cols_def astype_str_def)
  from transform_after_fit [of "\<lambda>x. ''''" "[]" FeatureEngineer_init FeatureEngineer_init ex_training
         ex_engineer "[[Some (- 1), Some 1], [Some 1, Some (- 1)]]" ex_input] fit num
  have "is_fitted ex_engineer \<and> transform (\<lambda>x. '''') ex_engineer ex_input
          = Inr (expected_vector (\<lambda>x. '''') ex_engineer ex_input)"
    by blast
  with fit num vec show ?thesis by simp
qed

subsection \<open>Prediction\<close>

lemma sum_list_divide_const:
  "sum_list (map (\<lambda>x. f x / c) xs) = sum_list (map f xs) / (c::real)"
  by (induction xs) (simp_all add: add_divide_distrib)

lemma map_of_keyed:
  "nm \<in> fst ` set ps \<Longrightarrow> map_of (map (\<lambda>(n, p). (n, g n)) ps) nm = Some (g nm)"
  by (induction ps) auto

lemma ensemble_weight_pos: "ensemble_weight metrics nm > 0"
  by (simp add: ensemble_weight_def max_def split: option.splits)

lemma sum_weights_pos:
  "ms \<noteq> [] \<Longrightarrow> sum_list (map (\<lambda>(nm, model). ensemble_weight metrics nm) ms) > 0"
proof (induction ms)
  case Nil
  then show ?case by simp
next
  case (Cons a ms)
  obtain n m where a: "a = (n, m)" by (cases a)
  have "sum_list (map (\<lambda>(nm, model). ensemble_weight metrics nm) ms) \<ge> 0"
    by (rule sum_list_nonneg) (auto simp: ensemble_weight_pos less_imp_le)
  then show ?case using ensemble_weight_pos [of metrics n] by (simp add: a)
qed

lemma weights_lookup:
  "n \<in> fst ` set ms \<Longrightarrow>
     dict_get (map (\<lambda>(nm, pred). (nm, g nm)) (map (\<lambda>(nm, model). (nm, h model)) ms)) n d = g n"
  by (induction ms) (auto simp: dict_get_def)

lemma dict_get_update_same: "dict_get (AList.update k v al) k d = v"
  by (simp add: dict_get_def update_conv')

lemma ensemble_terms:
  "fst ` set ps \<subseteq> fst ` set ms \<Longrightarrow>
   map (\<lambda>(nm, pred).
        pred * dict_get (map (\<lambda>(nm, pred). (nm, ensemble_weight metrics nm))
                          (map (\<lambda>(nm, model). (nm, model X)) ms)) nm 0 / T)
      (map (\<lambda>(nm, model). (nm, model X)) ps)
      = map (\<lambda>(nm, model). model X * ensemble_weight metrics nm / T) ps"
proof (induction ps)
  case Nil
  then show ?case by simp
next
  case (Cons a ps)
  obtain n m where a: "a = (n, m)" by (cases a)
  with Cons.prems have "n \<in> fst ` set ms" by auto
  then have "dict_get (map (\<lambda>(nm, pred). (nm, ensemble_weight metrics nm))
                          (map (\<lambda>(nm, model). (nm, model X)) ms)) n 0 = ensemble_weight metrics n"
    by (rule weights_lookup)
  moreover have "fst ` set ps \<subseteq> fst ` set ms" using Cons.prems by auto
  ultimately show ?case using Cons.IH by (simp add: a del: map_map)
qed

lemma ensemble_sum:
  "sum_list (map (\<lambda>(nm, pred).
        pred * dict_get (map (\<lambda>(nm, pred). (nm, ensemble_weight metrics nm))
                          (map (\<lambda>(nm, model). (nm, model X)) ms)) nm 0 / T)
      (map (\<lambda>(nm, model). (nm, model X)) ms))
   = sum_list (map (\<lambda>(nm, model). model X * ensemble_weight metrics nm) ms) / T"
proof -
  have "sum_list (map (\<lambda>(nm, model). model X * ensemble_weight metrics nm / T) ms)
      = sum_list (map (\<lambda>(nm, model). model X * ensemble_weight metrics nm) ms) / T"
    using sum_list_divide_const [of "\<lambda>(nm, model). model X * ensemble_weight metrics nm" T ms]
    by (simp add: split_def)
  then show ?thesis by (simp only: ensemble_terms [OF subset_refl])
qed

lemma predict_from_ensemble:
  assumes "\<forall>s. pref = Some s \<longrightarrow> map_of (models self) s = None"
  shows "predicted_price_mmk (predict_from uid self X pref)
           = weighted_ensemble (models self) (model_metrics self) X"
    and "model_used (predict_from uid self X pref) = ''ensemble''"
proof -
  have pre: "(case pref of None \<Rightarrow> None
             | Some p \<Rightarrow> if p \<noteq> '''' then map_option (\<lambda>model. (p, model)) (map_of (models self) p)
                         else None) = None"
    using assms by (cases pref) auto
  show "model_used (predict_from uid self X pref) = ''ensemble''"
    by (simp add: predict_from_def pre Let_def)
  have w: "(\<lambda>(nm, pred). (nm, case map_of (model_metrics self) nm of
                                   Some m \<Rightarrow> max (1/10) (r2_score m) | None \<Rightarrow> 1/2))
           = (\<lambda>(nm, pred :: real). (nm, ensemble_weight (model_metrics self) nm))"
    by (simp add: ensemble_weight_def)
  have tot: "sum_list (map snd (map (\<lambda>(nm, pred). (nm, ensemble_weight (model_metrics self) nm))
                 (map (\<lambda>(nm, model). (nm, model X)) (models self))))
              = sum_list (map (\<lambda>(nm, model). ensemble_weight (model_metrics self) nm) (models self))"
    by (simp add: split_def comp_def)
  show "predicted_price_mmk (predict_from uid self X pref)
           = weighted_ensemble (models self) (model_metrics self) X"
    unfolding predict_from_def pre Let_def w
    by (simp only: option.case fst_conv snd_conv dict_get_update_same ensemble_sum tot
          weighted_ensemble_def prediction_response.simps)
qed

lemma predict_from_confidence:
  "1/2 \<le> confidence_score (predict_from uid self X pref)
   \<and> confidence_score (predict_from uid self X pref) \<le> 95/100"
  by (simp add: predict_from_def Let_def)

lemma predict_confidence_clamped:
  "predict repr cy uid self p pref = Inr resp \<Longrightarrow>
     1/2 \<le> confidence_score resp \<and> confidence_score resp \<le> 95/100"
  using predict_from_confidence
  by (auto simp: predict_def split: sum.splits)

text \<open>
  C4. For every property whose features are created and transformed to a vector \<open>X\<close>:
  with a non-empty model map and no model preference, or one that names no model,
  \<open>predict\<close> returns the weighted ensemble, the sum of the model predictions at \<open>X\<close>
  times their weights divided by the (positive) sum of the weights, where a model's
  weight is \<open>max(0.1, R\<^sup>2)\<close> of its stored metric, or 0.5 when it has none; and for every
  preference the returned confidence score lies in \<open>[0.5, 0.95]\<close>.
\<close>

theorem predict_ensemble:
  assumes "create_features cy p = Inr fs"
    and "transform repr (feature_engineer self) fs = Inr X"
  shows "(models self \<noteq> [] \<and> (\<forall>s. pref = Some s \<longrightarrow> map_of (models self) s = None) \<longrightarrow>
           (\<exists>resp. predict repr cy uid self p pref = Inr resp
              \<and> predicted_price_mmk resp = weighted_ensemble (models self) (model_metrics self) X
              \<and> sum_list (map (\<lambda>(nm, model). ensemble_weight (model_metrics self) nm) (models self)) > 0
              \<and> model_used resp = ''ensemble''))
       \<and> (\<exists>resp. predict repr cy uid self p pref' = Inr resp
              \<and> 1/2 \<le> confidence_score resp \<and> confidence_score resp \<le> 95/100)"
proof (intro conjI impI)
  assume h: "models self \<noteq> [] \<and> (\<forall>s. pref = Some s \<longrightarrow> map_of (models self) s = None)"
  have "predict repr cy uid self p pref = Inr (predict_from uid self X pref)"
    using assms by (simp add: predict_def)
  moreover have "predicted_price_mmk (predict_from uid self X pref)
                   = weighted_ensemble (models self) (model_metrics self) X"
    and "model_used (predict_from uid self X pref) = ''ensemble''"
    using h by (simp_all add: predict_from_ensemble)
  moreover have "sum_list (map (\<lambda>(nm, model). ensemble_weight (model_metrics self) nm) (models self)) > 0"
    using h by (simp add: sum_weights_pos)
  ultimately show "\<exists>resp. predict repr cy uid self p pref = Inr resp
              \<and> predicted_price_mmk resp = weighted_ensemble (models self) (model_metrics self) X
              \<and> sum_list (map (\<lambda>(nm, model). ensemble_weight (model_metrics self) nm) (models self)) > 0
              \<and> model_used resp = ''ensemble''"
    by blast
next
  have "predict repr cy uid self p pref' = Inr (predict_from uid self X pref')"
    using assms by (simp add: predict_def)
  then show "\<exists>resp. predict repr cy uid self p pref' = Inr resp
              \<and> 1/2 \<le> confidence_score resp \<and> confidence_score resp \<le> 95/100"
    using predict_from_confidence [of uid self X pref'] by simp
qed

lemma lower_Yangon: "lower ''Yangon'' = ''yangon''"
  by code_simp

lemma fitted_inv_ex_engineer: "fitted_inv ex_engineer"
  by (simp add: fitted_inv_def ex_engineer_def categorical_cols_def)

theorem predict_ensemble_witness:
  "models (ex_manager (9/10)) \<noteq> []
   \<and> (\<exists>fs. create_features 2024 (ex_property None None) = Inr fs
          \<and> transform (\<lambda>x. '''') (feature_engineer (ex_manager (9/10))) fs = Inr [- (8/10), 1])
   \<and> (\<exists>resp. predict (\<lambda>x. '''') 2024 ''p-1'' (ex_manager (9/10)) (ex_property None None) None = Inr resp
          \<and> predicted_price_mmk resp = 950/7 \<and> model_used resp = ''ensemble'')
   \<and> (\<exists>resp. predict (\<lambda>x. '''') 2024 ''p-1'' (ex_manager (9/10)) (ex_property None None) (Some ''lightgbm'')
                 = Inr resp
          \<and> 1/2 \<le> confidence_score resp \<and> confidence_score resp \<le> 95/100)"
proof -
  obtain fs where fs: "create_features 2024 (ex_property None None) = Inr fs"
    and size: "map_of fs ''size_sqft'' = Some (Num 1200)"
    and city: "map_of fs ''city'' = Some (Str ''yangon'')"
    by (simp add: create_features_def ex_property_def Let_def neighborhood_part_def
          lower_Yangon)
  have num: "numeric_features ex_engineer fs"
    by (simp add: numeric_features_def ex_engineer_def categorical_cols_def size)
  have vec: "expected_vector (\<lambda>x. '''') ex_engineer fs = [- (8/10), 1]"
    by (simp add: expected_vector_def encoded_value_def ex_engineer_def size city
          categorical_cols_def astype_str_def)
  have X: "transform (\<lambda>x. '''') (feature_engineer (ex_manager (9/10))) fs = Inr [- (8/10), 1]"
    using transform_fitted(1) [OF fitted_inv_ex_engineer num, of "\<lambda>x. ''''"] vec
    by (simp add: ex_manager_def)
  have nonempty: "models (ex_manager (9/10)) \<noteq> []
       \<and> (\<forall>s. (None :: string option) = Some s \<longrightarrow> map_of (models (ex_manager (9/10))) s = None)"
    by (simp add: ex_manager_def)
  have ens: "weighted_ensemble (models (ex_manager (9/10))) (model_metrics (ex_manager (9/10)))
                 [- (8/10), 1] = 950/7"
    by (simp add: weighted_ensemble_def ensemble_weight_def ex_manager_def ex_metrics_def)
  from predict_ensemble [OF fs X, of None "''p-1''" "Some ''lightgbm''"] nonempty ens
  have "(\<exists>resp. predict (\<lambda>x. '''') 2024 ''p-1'' (ex_manager (9/10)) (ex_property None None) None = Inr resp
          \<and> predicted_price_mmk resp = 950/7 \<and> model_used resp = ''ensemble'')
   \<and> (\<exists>resp. predict (\<lambda>x. '''') 2024 ''p-1'' (ex_manager (9/10)) (ex_property None None) (Some ''lightgbm'')
                 = Inr resp
          \<and> 1/2 \<le> confidence_score resp \<and> confidence_score resp \<le> 95/100)"
    by auto
  with nonempty fs X show ?thesis by blast
qed

lemma confidence_examples:
  "confidence_score (predict_from ''p-1'' (ex_manager (99/100)) X None) = 95/100"
  "confidence_score (predict_from ''p-1'' (ex_manager (- (2/10))) X None) = 1/2"
  "confidence_score (predict_from ''p-1'' (ex_manager (9/10)) X None) = 9/10"
  by (simp_all add: predict_from_def ex_manager_def ex_metrics_def py_replace_def Let_def)

lemma py_replace_examples:
  "py_replace ''ensemble'' ''xgboost'' ''ensemble'' = ''xgboost''"
  "py_replace ''ensemble'' ''xgboost'' ''my_ensemble_2'' = ''my_xgboost_2''"
  by (simp_all add: py_replace_def)

subsection \<open>Batch prediction\<close>

text \<open>
  The keys \<open>enable_ai_enrichment\<close> and \<open>model_preference\<close> are given twice in the
  construction of the request inside the loop, so the construction raises for every
  property, and every non-empty batch that passes the checks gets the response 500.
\<close>

lemma to_prediction_request_raises: "to_prediction_request batch_request property_data = Inl TypeError"
  by (simp add: to_prediction_request_def call_with_kwargs_def prediction_request_fields_def)

lemma batch_loop_raises:
  "ps \<noteq> [] \<Longrightarrow> batch_loop repr cy uid ml batch_request k ps = Inl TypeError"
  by (cases ps) (simp_all add: to_prediction_request_raises)

lemma batch_nonempty_fails:
  assumes "properties body \<noteq> []" and "length (properties body) \<le> 100"
    and "int (length (properties body)) \<le> MAX_PREDICTION_BATCH_SIZE cfg"
    and "check_rate_limit cfg ip now st = (st', Inr ())"
  shows "post_predict_batch cfg repr cy uid ml ip now st body
           = (st', Inl (HTTPException 500 (Text ''Batch prediction service temporarily unavailable'')))"
  using assms
  by (simp add: post_predict_batch_def validate_batch_request_def batch_predict_prices_def
        batch_loop_raises)

text \<open>
  C7 (as amended). A batch request with more than 100 properties (so one with 101) is
  rejected by the validation of the request with the status 422, before the handler
  and its rate-limit check run. A validated request that the rate limiter admits and
  that holds more properties than the configured maximum is rejected with the status 400
  and a detail that names the configured maximum. A request with exactly 100
  properties, under a configured maximum of 100 and admitted by the rate limiter,
  passes both checks: its status is none of 400, 422 and 429.
\<close>

theorem batch_size_limits:
  "(length (properties body) > 100 \<longrightarrow>
      post_predict_batch cfg repr cy uid ml ip now st body = (st, Inl ValidationError422)
      \<and> response_status (snd (post_predict_batch cfg repr cy uid ml ip now st body)) = 422)
   \<and> (length (properties body) \<le> 100 \<and> check_rate_limit cfg ip now st = (st', Inr ())
        \<and> int (length (properties body)) > MAX_PREDICTION_BATCH_SIZE cfg \<longrightarrow>
      post_predict_batch cfg repr cy uid ml ip now st body
        = (st', Inl (HTTPException 400 (BatchSizeExceedsMaximum (MAX_PREDICTION_BATCH_SIZE cfg))))
      \<and> response_status (snd (post_predict_batch cfg repr cy uid ml ip now st body)) = 400)
   \<and> (length (properties body) = 100 \<and> MAX_PREDICTION_BATCH_SIZE cfg = 100
        \<and> check_rate_limit cfg ip now st = (st', Inr ()) \<longrightarrow>
      response_status (snd (post_predict_batch cfg repr cy uid ml ip now st body)) \<notin> {400, 422, 429})"
  by (auto simp: post_predict_batch_def validate_batch_request_def batch_predict_prices_def
        response_status_def split: sum.splits)

text \<open>
  The specification gives the status 400 to a request with 101 properties under the
  default settings; the response has the status 422.
\<close>

theorem batch_101_counterexample:
  "response_status (snd (post_predict_batch default_settings (\<lambda>x. '''') 2024 (\<lambda>k. '''')
       (ex_manager (9/10)) ex_ip 0 Map.empty (ex_batch 101))) = 422
   \<and> response_status (snd (post_predict_batch default_settings (\<lambda>x. '''') 2024 (\<lambda>k. '''')
       (ex_manager (9/10)) ex_ip 0 Map.empty (ex_batch 101))) \<noteq> 400"
  by (simp add: post_predict_batch_def validate_batch_request_def ex_batch_def response_status_def)

lemma batch_100_fails:
  "response_status (snd (post_predict_batch default_settings (\<lambda>x. '''') 2024 (\<lambda>k. '''')
       (ex_manager (9/10)) ex_ip 0 Map.empty (ex_batch 100))) = 500"
proof -
  have adm: "check_rate_limit default_settings ex_ip 0 Map.empty = ([ex_ip \<mapsto> [0]], Inr ())"
    by (simp add: check_rate_limit_step recorded_def default_settings_def)
  have "post_predict_batch default_settings (\<lambda>x. '''') 2024 (\<lambda>k. '''')
       (ex_manager (9/10)) ex_ip 0 Map.empty (ex_batch 100)
          = ([ex_ip \<mapsto> [0]], Inl (HTTPException 500 (Text ''Batch prediction service temporarily unavailable'')))"
    by (rule batch_nonempty_fails [OF _ _ _ adm]) (simp_all add: ex_batch_def default_settings_def)
  then show ?thesis by (simp add: response_status_def)
qed

theorem batch_size_limits_witness:
  "length (properties (ex_batch 101)) > 100
   \<and> post_predict_batch default_settings (\<lambda>x. '''') 2024 (\<lambda>k. '''') (ex_manager (9/10)) ex_ip 0
        Map.empty (ex_batch 101) = (Map.empty, Inl ValidationError422)
   \<and> length (properties (ex_batch 3)) \<le> 100
   \<and> check_rate_limit ex_cfg2 ex_ip 0 Map.empty = ([ex_ip \<mapsto> [0]], Inr ())
   \<and> int (length (properties (ex_batch 3))) > MAX_PREDICTION_BATCH_SIZE ex_cfg2
   \<and> post_predict_batch ex_cfg2 (\<lambda>x. '''') 2024 (\<lambda>k. '''') (ex_manager (9/10)) ex_ip 0
        Map.empty (ex_batch 3) = ([ex_ip \<mapsto> [0]], Inl (HTTPException 400 (BatchSizeExceedsMaximum 2)))
   \<and> length (properties (ex_batch 100)) = 100 \<and> MAX_PREDICTION_BATCH_SIZE default_settings = 100
   \<and> check_rate_limit default_settings ex_ip 0 Map.empty = ([ex_ip \<mapsto> [0]], Inr ())
   \<and> response_status (snd (post_predict_batch default_settings (\<lambda>x. '''') 2024 (\<lambda>k. '''')
        (ex_manager (9/10)) ex_ip 0 Map.empty (ex_batch 100))) \<notin> {400, 422, 429}"
proof -
  have a: "length (properties (ex_batch 101)) > 100" by (simp add: ex_batch_def)
  have b: "length (properties (ex_batch 3)) \<le> 100
       \<and> check_rate_limit ex_cfg2 ex_ip 0 Map.empty = ([ex_ip \<mapsto> [0]], Inr ())
       \<and> int (length (properties (ex_batch 3))) > MAX_PREDICTION_BATCH_SIZE ex_cfg2"
    by (simp add: ex_batch_def check_rate_limit_step recorded_def ex_cfg2_def default_settings_def)
  have c: "length (properties (ex_batch 100)) = 100 \<and> MAX_PREDICTION_BATCH_SIZE default_settings = 100
       \<and> check_rate_limit default_settings ex_ip 0 Map.empty = ([ex_ip \<mapsto> [0]], Inr ())"
    by (simp add: ex_batch_def check_rate_limit_step recorded_def default_settings_def)
  have m: "MAX_PREDICTION_BATCH_SIZE ex_cfg2 = 2" by (simp add: ex_cfg2_def default_settings_def)
  from batch_size_limits [of "ex_batch 101" default_settings "\<lambda>x. ''''" 2024 "\<lambda>k. ''''"
         "ex_manager (9/10)" ex_ip 0 Map.empty] a
  have ra: "post_predict_batch default_settings (\<lambda>x. '''') 2024 (\<lambda>k. '''') (ex_manager (9/10)) ex_ip 0
        Map.empty (ex_batch 101) = (Map.empty, Inl ValidationError422)"
    by blast
  from batch_size_limits [of "ex_batch 3" ex_cfg2 "\<lambda>x. ''''" 2024 "\<lambda>k. ''''"
         "ex_manager (9/10)" ex_ip 0 Map.empty "[ex_ip \<mapsto> [0]]"] b m
  have rb: "post_predict_batch ex_cfg2 (\<lambda>x. '''') 2024 (\<lambda>k. '''') (ex_manager (9/10)) ex_ip 0
        Map.empty (ex_batch 3) = ([ex_ip \<mapsto> [0]], Inl (HTTPException 400 (BatchSizeExceedsMaximum 2)))"
    by simp
  from batch_size_limits [of "ex_batch 100" default_settings "\<lambda>x. ''''" 2024 "\<lambda>k. ''''"
         "ex_manager (9/10)" ex_ip 0 Map.empty "[ex_ip \<mapsto> [0]]"] c
  have rc: "response_status (snd (post_predict_batch default_settings (\<lambda>x. '''') 2024 (\<lambda>k. '''')
        (ex_manager (9/10)) ex_ip 0 Map.empty (ex_batch 100))) \<notin> {400, 422, 429}"
    by blast
  from a b c ra rb rc show ?thesis by blast
qed

subsection \<open>Market analysis\<close>

lemma json_get_Inr: "json_get j k dflt = Inr v \<Longrightarrow> \<exists>d. j = JObj d \<and> v = dict_get d k dflt"
  by (cases j) simp_all

lemma as_dict_Inr: "as_dict j = Inr d \<Longrightarrow> j = JObj d"
  by (cases j) simp_all

lemma bind_error_Inr: "bind_error r f = Inr v \<Longrightarrow> \<exists>x. r = Inr x \<and> f x = Inr v"
  by (cases r) (simp_all add: bind_error_def)

lemma number_fields:
  assumes "div_2100 mmk = Inr usd" and "as_float mmk = Inr v"
  shows "(\<exists>x. mmk = JNum x \<and> v = x \<and> usd = x / 2100)
       \<or> (\<exists>b. mmk = JBool b \<and> v = (if b then 1 else 0) \<and> usd = (if b then 1 else 0) / 2100)"
  using assms by (cases mmk) auto

lemma market_analysis_body_fields:
  assumes "market_analysis_body uid req ai = Inr resp"
  shows "\<exists>d pa r mmk. effective_market_data ai = JObj d
      \<and> dict_get d ''pricing_analysis'' (JObj []) = JObj pa
      \<and> dict_get pa ''average_price_range'' (JObj []) = JObj r
      \<and> dict_get r ''min_mmk'' (JNum 0) = mmk
      \<and> div_2100 mmk = Inr (average_price_usd resp)
      \<and> as_float mmk = Inr (average_price_mmk resp)"
proof -
  let ?md = "effective_market_data ai"
  have md: "(if \<not> truthy ai then fallback_market_data else ai) = ?md"
    by (simp add: effective_market_data_def)
  from assms obtain pa where 1: "json_get ?md ''pricing_analysis'' (JObj []) = Inr pa"
    and r1: "bind_error (json_get pa ''average_price_range'' (JObj [])) (\<lambda>price_range.
      bind_error (json_get price_range ''min_mmk'' (JNum 0)) (\<lambda>mmk.
      bind_error (div_2100 mmk) (\<lambda>usd.
      bind_error (json_get ?md ''market_overview'' (JObj [])) (\<lambda>overview.
      bind_error (json_get ?md ''recommendations''
                    (JArr [JStr ''Conduct thorough market research''])) (\<lambda>recs.
      bind_error (as_float mmk) (\<lambda>mmk_value.
      bind_error (as_dict overview) (\<lambda>overview_dict.
      bind_error (as_dict pa) (\<lambda>pa_dict.
      bind_error (as_str_list recs) (\<lambda>rec_list.
        Inr \<lparr>location_summary = (city (analysis_location req),
                                  township (analysis_location req),
                                  time_period_months req),
             average_price_mmk = mmk_value,
             average_price_usd = usd,
             price_trends = overview_dict,
             market_activity = overview_dict,
             price_distribution = pa_dict,
             recommendations = rec_list,
             analysis_id = uid\<rparr>))))))))) = Inr resp"
    unfolding market_analysis_body_def Let_def md by (blast dest: bind_error_Inr)
  from r1 obtain rg mmk usd ov recs v ovd pad rl where
      2: "json_get pa ''average_price_range'' (JObj []) = Inr rg"
    and 3: "json_get rg ''min_mmk'' (JNum 0) = Inr mmk"
    and 4: "div_2100 mmk = Inr usd"
    and 5: "as_float mmk = Inr v"
    and 6: "as_dict pa = Inr pad"
    and resp: "resp = \<lparr>location_summary = (city (analysis_location req),
                                  township (analysis_location req),
                                  time_period_months req),
             average_price_mmk = v,
             average_price_usd = usd,
             price_trends = ovd,
             market_activity = ovd,
             price_distribution = pad,
             recommendations = rl,
             analysis_id = uid\<rparr>"
    by (fastforce dest!: bind_error_Inr)
  from 1 obtain d where d: "?md = JObj d" "pa = dict_get d ''pricing_analysis'' (JObj [])"
    by (blast dest: json_get_Inr)
  from 6 have pa: "pa = JObj pad" by (rule as_dict_Inr)
  from 2 pa have rg: "rg = dict_get pad ''average_price_range'' (JObj [])" by simp
  from 3 obtain r where r: "rg = JObj r" "mmk = dict_get r ''min_mmk'' (JNum 0)"
    by (blast dest: json_get_Inr)
  show ?thesis
    using d pa rg r 4 5 resp by (intro exI [of _ d] exI [of _ pad] exI [of _ r] exI [of _ mmk]) simp
qed

text \<open>
  C8. For every market-analysis request that is answered with a response, the
  response's \<open>average_price_mmk\<close> is the \<open>min_mmk\<close> field of the
  \<open>pricing_analysis.average_price_range\<close> of the AI-provided or fallback market data
  (0 when absent), and \<open>average_price_usd\<close> is that same figure divided by 2100: the
  minimum of the range is what is shown as the average.
\<close>

theorem market_analysis_average:
  assumes "snd (market_analysis cfg uid ip now st req ai) = Inr resp"
  shows "average_price_mmk resp = min_mmk_figure (effective_market_data ai)
       \<and> average_price_usd resp = min_mmk_figure (effective_market_data ai) / 2100"
proof -
  from assms have "market_analysis_body uid req ai = Inr resp"
    by (auto simp: market_analysis_def split: prod.splits sum.splits)
  then obtain d pa r mmk where
      d: "effective_market_data ai = JObj d"
    and pa: "dict_get d ''pricing_analysis'' (JObj []) = JObj pa"
    and r: "dict_get pa ''average_price_range'' (JObj []) = JObj r"
    and mmk: "dict_get r ''min_mmk'' (JNum 0) = mmk"
    and usd: "div_2100 mmk = Inr (average_price_usd resp)"
    and v: "as_float mmk = Inr (average_price_mmk resp)"
    by (blast dest: market_analysis_body_fields)
  have field: "(case min_mmk_field (JObj d) of None \<Rightarrow> JNum 0 | Some j \<Rightarrow> j) = mmk"
    using pa r mmk
    by (auto simp: min_mmk_field_def dict_get_def split: option.splits json.splits)
  from number_fields [OF usd v] show ?thesis
    using field by (auto simp: d min_mmk_figure_def split: option.splits)
qed

lemmas market_analysis_eval =
  market_analysis_def market_analysis_body_def bind_error_def Let_def check_rate_limit_step
  recorded_def default_settings_def dict_get_def fallback_market_data_def

theorem market_analysis_average_witness:
  "(\<exists>resp. snd (market_analysis default_settings ''a-1'' ex_ip 0 Map.empty ex_analysis_request
                 ex_market_data) = Inr resp
       \<and> average_price_mmk resp = 210000000 \<and> average_price_usd resp = 100000)
   \<and> (\<exists>resp. snd (market_analysis default_settings ''a-1'' ex_ip 0 Map.empty ex_analysis_request
                 (JObj [])) = Inr resp
       \<and> average_price_mmk resp = 0 \<and> average_price_usd resp = 0)"
proof -
  obtain resp where r: "snd (market_analysis default_settings ''a-1'' ex_ip 0 Map.empty
                               ex_analysis_request ex_market_data) = Inr resp"
    by (simp add: market_analysis_eval ex_market_data_def)
  have fig: "min_mmk_figure (effective_market_data ex_market_data) = 210000000"
    by (simp add: min_mmk_figure_def min_mmk_field_def effective_market_data_def ex_market_data_def)
  obtain resp0 where r0: "snd (market_analysis default_settings ''a-1'' ex_ip 0 Map.empty
                               ex_analysis_request (JObj [])) = Inr resp0"
    by (simp add: market_analysis_eval)
  have fig0: "min_mmk_figure (effective_market_data (JObj [])) = 0"
    by (simp add: min_mmk_figure_def min_mmk_field_def effective_market_data_def
          fallback_market_data_def)
  from market_analysis_average [OF r] fig
  have "average_price_mmk resp = 210000000 \<and> average_price_usd resp = 100000" by simp
  moreover from market_analysis_average [OF r0] fig0
  have "average_price_mmk resp0 = 0 \<and> average_price_usd resp0 = 0" by simp
  ultimately show ?thesis using r r0 by blast
qed

end
